theory Spec2Isabelle
  imports Main "HOL-Library.Multiset"
begin

section \<open>JavaScript values used by the routes\<close>

text \<open>
  Strings are byte lists. A value that JavaScript may leave \<open>undefined\<close> or \<open>null\<close> is an
  option. \<open>truthy\<close> is the truthiness test of a string-or-nothing value: \<open>undefined\<close>,
  \<open>null\<close> and the empty string are falsy.
\<close>

definition truthy :: "string option \<Rightarrow> bool" where
  "truthy v = (case v of None \<Rightarrow> False | Some s \<Rightarrow> s \<noteq> [])"

text \<open>A number inside a template string: its decimal digits.\<close>

definition digitChar :: "nat \<Rightarrow> char" where
  "digitChar d = ''0123456789'' ! d"

function showNat :: "nat \<Rightarrow> string" where
  "showNat n = (if n < 10 then [digitChar n] else showNat (n div 10) @ [digitChar (n mod 10)])"
  by pat_completeness auto
termination
  by (relation "measure id") auto

declare showNat.simps [simp del]

definition showInt :: "int \<Rightarrow> string" where
  "showInt i = (if i < 0 then CHR ''-'' # showNat (nat (- i)) else showNat (nat i))"

text \<open>A string-or-undefined inside a template string.\<close>

definition showOpt :: "string option \<Rightarrow> string" where
  "showOpt v = (case v of None \<Rightarrow> ''undefined'' | Some s \<Rightarrow> s)"

text \<open>\<open>date?.split('-')[0]\<close>: the text before the first dash, undefined without a date.\<close>

definition yearOf :: "string option \<Rightarrow> string option" where
  "yearOf date = map_option (takeWhile (\<lambda>c. c \<noteq> CHR ''-'')) date"

text \<open>
  A number as far as the routes compare it with a result of \<open>parseInt\<close>: \<open>parseInt\<close>
  gives \<open>NaN\<close>, an integer-valued number or an infinity, so a number of any other
  value is never strictly equal to its result.
\<close>

datatype number = Finite int | PosInfinity | NegInfinity

text \<open>
  The built-ins of the JavaScript runtime whose result is more than a matter of
  bytes. They are not code of the repository and the routes are read for any
  functions in their place: \<open>String.prototype.toLowerCase\<close>, which folds every
  cased letter, and \<open>parseInt\<close> with no radix, where \<open>NaN\<close> is \<open>None\<close>.
\<close>

record runtime =
  js_toLowerCase :: "string \<Rightarrow> string"
  js_parseInt :: "string \<Rightarrow> number option"

section \<open>Remote services\<close>

text \<open>
  An axios call either rejects (transport error, timeout or a non-2xx answer) or
  resolves with the body. The rejection keeps what the routes read from it:
  \<open>error.message\<close>, \<open>error.response?.status\<close> and \<open>error.response?.data\<close> when that is
  an array of validation failures (any other body is \<open>None\<close>).
\<close>

record validation_failure =
  errorCode :: "string option"
  errorMessage :: "string option"

record axios_error =
  err_message :: string
  err_status :: "nat option"
  err_data :: "validation_failure list option"

datatype 'a reply = Rejected axios_error | Resolved 'a

text \<open>
  The bodies of the answers, with the fields the routes read: a library section
  (\<open>type\<close>, \<open>key\<close>), a library record (\<open>title\<close>, \<open>year\<close>), a movie of the manager's list
  (\<open>id\<close>, \<open>tmdbId\<close>, \<open>hasFile\<close>, \<open>monitored\<close>, \<open>status\<close>), a series of the manager's list
  (\<open>tvdbId\<close>, \<open>title\<close>, \<open>statistics?.percentOfEpisodes\<close>), and a lookup result (\<open>title\<close>,
  \<open>tmdbId\<close> or \<open>tvdbId\<close>, \<open>year\<close>). Numbers are integers. A field that may be missing is
  an option; a record whose \<open>title\<close> is missing would throw in the handler and is not
  modelled. The \<open>year\<close> of a library record is compared with \<open>parseInt\<close> only: it is
  \<open>Some n\<close> when it is a number that \<open>parseInt\<close> can give, and \<open>None\<close> when the record
  has no year or one that is no such number.
\<close>

record directory =
  dir_type :: string
  dir_key :: string

record plex_item =
  item_title :: string
  item_year :: "number option"

record radarr_movie =
  rm_id :: int
  rm_tmdbId :: int
  rm_hasFile :: bool
  rm_monitored :: bool
  rm_status :: string

record sonarr_series =
  ss_tvdbId :: "int option"
  ss_title :: string
  ss_percentOfEpisodes :: "int option"

record lookup_data =
  ld_title :: string
  ld_extId :: int
  ld_year :: int

text \<open>
  The body of the add call: what comes from the lookup, the first quality profile
  and the first root folder. The other fields are constants (\<open>monitored: true\<close>,
  the search options, \<open>seasonFolder: true\<close>).
\<close>

record add_body =
  ab_title :: string
  ab_extId :: int
  ab_year :: int
  ab_qualityProfileId :: int
  ab_rootFolderPath :: string

text \<open>
  What is outside the repository, as the routes reach it: the runtime, and the
  services. Every endpoint reads the remote state
  \<open>'w\<close>; the two add endpoints also change it. Addresses and credentials are the
  columns of the server row, passed as they are stored. A body is an option where
  the handler tests it or reads through it: \<open>MediaContainer.Directory\<close>,
  \<open>MediaContainer.Metadata || []\<close>, \<open>data.records?\<close> (the queue, as the list of the
  \<open>movieId\<close> of its records), \<open>!lookupResponse.data\<close>, \<open>!rootFolderResponse.data\<close> (the
  list of the \<open>path\<close> fields), \<open>!profileResponse.data\<close> (the list of the \<open>id\<close> fields).
\<close>

record 'w api =
  jsRuntime :: runtime
  plex_sections :: "'w \<Rightarrow> string \<Rightarrow> string \<Rightarrow> directory list option reply"
  plex_all :: "'w \<Rightarrow> string \<Rightarrow> string \<Rightarrow> string \<Rightarrow> nat \<Rightarrow> string \<Rightarrow> plex_item list option reply"
  radarr_movies :: "'w \<Rightarrow> string option \<Rightarrow> string option \<Rightarrow> radarr_movie list reply"
  radarr_queue :: "'w \<Rightarrow> string option \<Rightarrow> string option \<Rightarrow> int list option reply"
  radarr_lookup :: "'w \<Rightarrow> string option \<Rightarrow> string option \<Rightarrow> int \<Rightarrow> lookup_data option reply"
  radarr_rootfolder :: "'w \<Rightarrow> string option \<Rightarrow> string option \<Rightarrow> string list option reply"
  radarr_qualityprofile :: "'w \<Rightarrow> string option \<Rightarrow> string option \<Rightarrow> int list option reply"
  radarr_add :: "'w \<Rightarrow> string option \<Rightarrow> string option \<Rightarrow> add_body \<Rightarrow> int reply \<times> 'w"
  sonarr_series_list :: "'w \<Rightarrow> string option \<Rightarrow> string option \<Rightarrow> sonarr_series list reply"
  sonarr_lookup :: "'w \<Rightarrow> string option \<Rightarrow> string option \<Rightarrow> string \<Rightarrow> lookup_data list option reply"
  sonarr_rootfolder :: "'w \<Rightarrow> string option \<Rightarrow> string option \<Rightarrow> string list option reply"
  sonarr_qualityprofile :: "'w \<Rightarrow> string option \<Rightarrow> string option \<Rightarrow> int list option reply"
  sonarr_add :: "'w \<Rightarrow> string option \<Rightarrow> string option \<Rightarrow> add_body \<Rightarrow> int reply \<times> 'w"

text \<open>The remote calls a checker issued, in order.\<close>

datatype call =
  PlexSections string
  | PlexAll string string
  | RadarrMovies
  | RadarrQueue
  | SonarrSeries

section \<open>Database tables\<close>

text \<open>
  The tables as lists of rows, in the order of insertion. A nullable column is an
  option, a \<open>DATETIME\<close> is a number that grows with time. The \<open>seasons\<close> columns hold
  JSON text, which the routes store and hand back without looking inside.
\<close>

record plex_server =
  ps_id :: string
  ps_name :: string
  ps_url :: string
  ps_token :: string
  ps_radarr_url :: "string option"
  ps_radarr_api_key :: "string option"
  ps_sonarr_url :: "string option"
  ps_sonarr_api_key :: "string option"

record user_row =
  ur_id :: string
  ur_username :: string

record content_request =
  cr_id :: string
  cr_user_id :: string
  cr_server_id :: string
  cr_tmdb_id :: int
  cr_content_type :: string
  cr_title :: string
  cr_year :: "int option"
  cr_overview :: "string option"
  cr_poster_path :: "string option"
  cr_status :: string
  cr_seasons :: "string option"
  cr_requested_at :: int
  cr_processed_at :: "int option"
  cr_processed_by :: "string option"
  cr_notes :: "string option"

record rss_item =
  ri_id :: string
  ri_server_id :: string
  ri_content_type :: string
  ri_tmdb_id :: int
  ri_title :: string
  ri_year :: "int option"
  ri_overview :: "string option"
  ri_poster_path :: "string option"
  ri_seasons :: "string option"
  ri_added_by :: "string option"
  ri_added_at :: int

record audit_entry =
  al_user_id :: string
  al_action :: string
  al_details :: string
  al_ip_address :: string

record database =
  plex_servers :: "plex_server list"
  users :: "user_row list"
  content_requests :: "content_request list"
  rss_items :: "rss_item list"
  audit_log :: "audit_entry list"

text \<open>\<open>SELECT * FROM plex_servers WHERE id = ?\<close>, first row or nothing.\<close>

definition getServer :: "database \<Rightarrow> string \<Rightarrow> plex_server option" where
  "getServer db serverId = find (\<lambda>s. ps_id s = serverId) (plex_servers db)"

section \<open>Availability cache\<close>

text \<open>
  \<open>availabilityCache\<close> is one map from key strings to \<open>{data, timestamp}\<close>. The keys of
  the library checkers start with \<open>plex_\<close> and hold \<open>{exists, ...}\<close> objects; the keys of
  the manager checkers start with \<open>radarr_\<close> or \<open>sonarr_\<close> and hold a status or null.
  The two families never share a key, so the map is kept as its two typed halves.
\<close>

record plex_result =
  pr_exists :: bool
  pr_match :: "plex_item option"

record 'a cache_entry =
  ce_data :: 'a
  ce_timestamp :: int

record cache =
  plexCache :: "string \<Rightarrow> plex_result cache_entry option"
  statusCache :: "string \<Rightarrow> string option cache_entry option"

definition CACHE_TTL :: int where
  "CACHE_TTL = 5 * 60 * 1000"

definition emptyCache :: cache where
  "emptyCache = \<lparr>plexCache = Map.empty, statusCache = Map.empty\<rparr>"

text \<open>\<open>cached && Date.now() - cached.timestamp < CACHE_TTL\<close>, giving \<open>cached.data\<close>.\<close>

definition freshEntry :: "'a cache_entry option \<Rightarrow> int \<Rightarrow> 'a option" where
  "freshEntry cached now =
     (case cached of
        None \<Rightarrow> None
      | Some e \<Rightarrow> if now - ce_timestamp e < CACHE_TTL then Some (ce_data e) else None)"

text \<open>The template strings of the keys.\<close>

definition plexCacheKey :: "string \<Rightarrow> string \<Rightarrow> string \<Rightarrow> string option \<Rightarrow> string" where
  "plexCacheKey kind serverId title year =
     ''plex_'' @ kind @ ''_'' @ serverId @ ''_'' @ title @ ''_'' @ showOpt year"

definition radarrCacheKey :: "string \<Rightarrow> int \<Rightarrow> string" where
  "radarrCacheKey serverId tmdbId = ''radarr_'' @ serverId @ ''_'' @ showInt tmdbId"

definition sonarrCacheKey :: "string \<Rightarrow> int \<Rightarrow> string" where
  "sonarrCacheKey serverId tmdbId = ''sonarr_'' @ serverId @ ''_'' @ showInt tmdbId"

definition putPlex :: "cache \<Rightarrow> string \<Rightarrow> plex_result \<Rightarrow> int \<Rightarrow> cache" where
  "putPlex c k r t = c\<lparr>plexCache := (plexCache c)(k \<mapsto> \<lparr>ce_data = r, ce_timestamp = t\<rparr>)\<rparr>"

text \<open>\<open>availabilityCache.set(cacheKey, { data, timestamp })\<close>\<close>

definition putStatus :: "cache \<Rightarrow> string \<Rightarrow> string option \<Rightarrow> int \<Rightarrow> cache" where
  "putStatus c k s t = c\<lparr>statusCache := (statusCache c)(k \<mapsto> \<lparr>ce_data = s, ce_timestamp = t\<rparr>)\<rparr>"

section \<open>Library presence checker\<close>

text \<open>The predicate given to \<open>find\<close> in \<open>checkPlexMovie\<close> and \<open>checkPlexTv\<close>.\<close>

definition plexMatch :: "runtime \<Rightarrow> string \<Rightarrow> string option \<Rightarrow> plex_item \<Rightarrow> bool" where
  "plexMatch rt title year m =
     (let titleMatch = (js_toLowerCase rt (item_title m) = js_toLowerCase rt title);
          yearMatch =
            (case year of
               None \<Rightarrow> True
             | Some y \<Rightarrow>
                 if y = [] then True
                 else (case js_parseInt rt y of
                         None \<Rightarrow> False
                       | Some n \<Rightarrow> item_year m = Some n))
      in titleMatch \<and> yearMatch)"

datatype scan = ScanThrew | ScanHit plex_item | ScanMiss

text \<open>
  The loop over the sections of the right kind: one request per section, the first
  matching record ends the scan, a rejected request ends it in the handler's
  \<open>catch\<close>.
\<close>

fun scanSections ::
  "'w api \<Rightarrow> 'w \<Rightarrow> plex_server \<Rightarrow> nat \<Rightarrow> string \<Rightarrow> string option \<Rightarrow> string list \<Rightarrow> scan \<times> call list"
where
  "scanSections api w server ty title year [] = (ScanMiss, [])"
| "scanSections api w server ty title year (sectionId # rest) =
     (case plex_all api w (ps_url server) (ps_token server) sectionId ty title of
        Rejected e \<Rightarrow> (ScanThrew, [PlexAll (ps_url server) sectionId])
      | Resolved metadata \<Rightarrow>
          (case find (plexMatch (jsRuntime api) title year) (case metadata of None \<Rightarrow> [] | Some ms \<Rightarrow> ms) of
             Some m \<Rightarrow> (ScanHit m, [PlexAll (ps_url server) sectionId])
           | None \<Rightarrow>
               (case scanSections api w server ty title year rest of
                  (r, calls) \<Rightarrow> (r, PlexAll (ps_url server) sectionId # calls))))"

definition notPresent :: plex_result where
  "notPresent = \<lparr>pr_exists = False, pr_match = None\<rparr>"

text \<open>
  \<open>checkPlexMovie\<close> and \<open>checkPlexTv\<close> are the same function up to the key prefix, the
  section type and the \<open>type\<close> parameter. \<open>now\<close> is \<open>Date.now()\<close> at the freshness test,
  \<open>later\<close> is \<open>Date.now()\<close> when the result is stored. The result comes with the cache
  and the remote calls made.
\<close>

definition checkPlex ::
  "string \<Rightarrow> string \<Rightarrow> nat \<Rightarrow> 'w api \<Rightarrow> 'w \<Rightarrow> database \<Rightarrow> int \<Rightarrow> int \<Rightarrow> cache \<Rightarrow>
     string \<Rightarrow> string \<Rightarrow> string option \<Rightarrow> plex_result \<times> cache \<times> call list"
where
  "checkPlex kind secType ty api w db now later c serverId title year =
     (let cacheKey = plexCacheKey kind serverId title year in
      case freshEntry (plexCache c cacheKey) now of
        Some d \<Rightarrow> (d, c, [])
      | None \<Rightarrow>
          (case getServer db serverId of
             None \<Rightarrow> (notPresent, c, [])
           | Some server \<Rightarrow>
               (case plex_sections api w (ps_url server) (ps_token server) of
                  Rejected e \<Rightarrow> (notPresent, c, [PlexSections (ps_url server)])
                | Resolved None \<Rightarrow> (notPresent, c, [PlexSections (ps_url server)])
                | Resolved (Some dirs) \<Rightarrow>
                    (case scanSections api w server ty title year
                            (map dir_key (filter (\<lambda>d. dir_type d = secType) dirs)) of
                       (ScanThrew, calls) \<Rightarrow>
                         (notPresent, c, PlexSections (ps_url server) # calls)
                     | (ScanHit m, calls) \<Rightarrow>
                         (let r = \<lparr>pr_exists = True, pr_match = Some m\<rparr>
                          in (r, putPlex c cacheKey r later, PlexSections (ps_url server) # calls))
                     | (ScanMiss, calls) \<Rightarrow>
                         (notPresent, putPlex c cacheKey notPresent later,
                          PlexSections (ps_url server) # calls)))))"

definition checkPlexMovie ::
  "'w api \<Rightarrow> 'w \<Rightarrow> database \<Rightarrow> int \<Rightarrow> int \<Rightarrow> cache \<Rightarrow> string \<Rightarrow> string \<Rightarrow> string option \<Rightarrow>
     plex_result \<times> cache \<times> call list"
where
  "checkPlexMovie = checkPlex ''movie'' ''movie'' 1"

definition checkPlexTv ::
  "'w api \<Rightarrow> 'w \<Rightarrow> database \<Rightarrow> int \<Rightarrow> int \<Rightarrow> cache \<Rightarrow> string \<Rightarrow> string \<Rightarrow> string option \<Rightarrow>
     plex_result \<times> cache \<times> call list"
where
  "checkPlexTv = checkPlex ''tv'' ''show'' 2"

section \<open>Download-manager status checkers\<close>

text \<open>\<open>!server || !server.radarr_url || !server.radarr_api_key\<close>, and the series variant.\<close>

definition radarrConfigured :: "plex_server \<Rightarrow> bool" where
  "radarrConfigured server = (truthy (ps_radarr_url server) \<and> truthy (ps_radarr_api_key server))"

definition sonarrConfigured :: "plex_server \<Rightarrow> bool" where
  "sonarrConfigured server = (truthy (ps_sonarr_url server) \<and> truthy (ps_sonarr_api_key server))"

text \<open>
  The classification of a movie found in the manager's list. The queue is asked
  only for a monitored movie without a file; a rejected queue request is \<open>None\<close>
  (the handler's \<open>catch\<close>), otherwise the status comes with the calls made.
\<close>

definition classifyMovie ::
  "'w api \<Rightarrow> 'w \<Rightarrow> plex_server \<Rightarrow> radarr_movie \<Rightarrow> (string option \<times> call list) option"
where
  "classifyMovie api w server movie =
     (if rm_hasFile movie then Some (Some ''downloaded'', [])
      else if rm_monitored movie then
        (case radarr_queue api w (ps_radarr_url server) (ps_radarr_api_key server) of
           Rejected e \<Rightarrow> None
         | Resolved records \<Rightarrow>
             (let inQueue = (case records of
                               None \<Rightarrow> False
                             | Some qs \<Rightarrow> find (\<lambda>q. q = rm_id movie) qs \<noteq> None)
              in Some (if inQueue then Some ''queued''
                       else if rm_status movie = ''released'' then Some ''missing''
                       else Some ''unreleased'',
                       [RadarrQueue])))
      else Some (None, []))"

definition checkRadarrMovie ::
  "'w api \<Rightarrow> 'w \<Rightarrow> database \<Rightarrow> int \<Rightarrow> int \<Rightarrow> cache \<Rightarrow> string \<Rightarrow> int \<Rightarrow>
     string option \<times> cache \<times> call list"
where
  "checkRadarrMovie api w db now later c serverId tmdbId =
     (let cacheKey = radarrCacheKey serverId tmdbId in
      case freshEntry (statusCache c cacheKey) now of
        Some d \<Rightarrow> (d, c, [])
      | None \<Rightarrow>
          (case getServer db serverId of
             None \<Rightarrow> (None, c, [])
           | Some server \<Rightarrow>
               if \<not> radarrConfigured server then (None, c, [])
               else
                 (case radarr_movies api w (ps_radarr_url server) (ps_radarr_api_key server) of
                    Rejected e \<Rightarrow> (None, c, [RadarrMovies])
                  | Resolved movies \<Rightarrow>
                      (case find (\<lambda>m. rm_tmdbId m = tmdbId) movies of
                         None \<Rightarrow> (None, putStatus c cacheKey None later, [RadarrMovies])
                       | Some movie \<Rightarrow>
                           (case classifyMovie api w server movie of
                              None \<Rightarrow> (None, c, [RadarrMovies, RadarrQueue])
                            | Some (status, calls) \<Rightarrow>
                                (status, putStatus c cacheKey status later,
                                 RadarrMovies # calls))))))"

text \<open>
  The series variant fetches the manager's series list and then stores and returns
  the constant \<open>null\<close>: the list is not looked at.
\<close>

definition checkSonarrSeries ::
  "'w api \<Rightarrow> 'w \<Rightarrow> database \<Rightarrow> int \<Rightarrow> int \<Rightarrow> cache \<Rightarrow> string \<Rightarrow> int \<Rightarrow>
     string option \<times> cache \<times> call list"
where
  "checkSonarrSeries api w db now later c serverId tmdbId =
     (let cacheKey = sonarrCacheKey serverId tmdbId in
      case freshEntry (statusCache c cacheKey) now of
        Some d \<Rightarrow> (d, c, [])
      | None \<Rightarrow>
          (case getServer db serverId of
             None \<Rightarrow> (None, c, [])
           | Some server \<Rightarrow>
               if \<not> sonarrConfigured server then (None, c, [])
               else
                 (case sonarr_series_list api w (ps_sonarr_url server) (ps_sonarr_api_key server) of
                    Rejected e \<Rightarrow> (None, c, [SonarrSeries])
                  | Resolved series \<Rightarrow>
                      (let status = None
                       in (status, putStatus c cacheKey status later, [SonarrSeries])))))"

section \<open>Availability aggregator\<close>

text \<open>
  A catalog item (\<open>id\<close>, \<open>title\<close> or \<open>name\<close>, \<open>release_date\<close> or \<open>first_air_date\<close>) and the
  signed-in user as the middleware builds it.
\<close>

record tmdb_item =
  tm_id :: int
  tm_title :: string
  tm_date :: "string option"

record user =
  u_id :: string
  u_role :: string
  u_canAddDirectly :: bool
  u_primaryServerId :: "string option"
  u_servers :: "plex_server list"

text \<open>
  The object built by \<open>checkMovieAvailability\<close> and \<open>checkTvAvailability\<close>;
  \<open>managerStatus\<close> is the field \<open>radarrStatus\<close> of the first and \<open>sonarrStatus\<close> of the
  second.
\<close>

record availability =
  status :: string
  plexAvailable :: bool
  plexServers :: "string list"
  managerStatus :: "string option"
  inRssFeed :: bool

text \<open>
  The loop \<open>for (const server of servers)\<close>. The two checkers are parameters that
  thread a state \<open>'s\<close> (the cache and whatever else they touch).
\<close>

fun checkServers ::
  "(string \<Rightarrow> 's \<Rightarrow> plex_result \<times> 's) \<Rightarrow> (string \<Rightarrow> 's \<Rightarrow> string option \<times> 's) \<Rightarrow>
     string option \<Rightarrow> plex_server list \<Rightarrow> availability \<Rightarrow> 's \<Rightarrow> availability \<times> 's"
where
  "checkServers plexCheck managerCheck primary [] result s = (result, s)"
| "checkServers plexCheck managerCheck primary (server # rest) result s =
     (case plexCheck (ps_id server) s of
        (plexResult, s1) \<Rightarrow>
          (let result1 =
                 (if pr_exists plexResult
                  then result\<lparr>plexAvailable := True,
                              plexServers := plexServers result @ [ps_name server]\<rparr>
                  else result)
           in if Some (ps_id server) = primary then
                (case managerCheck (ps_id server) s1 of
                   (managerResult, s2) \<Rightarrow>
                     checkServers plexCheck managerCheck primary rest
                       (if truthy managerResult
                        then result1\<lparr>managerStatus := managerResult\<rparr>
                        else result1) s2)
              else checkServers plexCheck managerCheck primary rest result1 s1))"

text \<open>\<open>SELECT * FROM rss_items WHERE tmdb_id = ? AND content_type = ...\<close>\<close>

definition rssItemFor :: "database \<Rightarrow> int \<Rightarrow> string \<Rightarrow> rss_item option" where
  "rssItemFor db tmdbId contentType =
     find (\<lambda>i. ri_tmdb_id i = tmdbId \<and> ri_content_type i = contentType) (rss_items db)"

text \<open>The chain of conditionals under \<open>// Determine overall status\<close>.\<close>

definition determineStatus :: "availability \<Rightarrow> availability" where
  "determineStatus result =
     (if plexAvailable result then result\<lparr>status := ''available''\<rparr>
      else if truthy (managerStatus result)
        then result\<lparr>status := (case managerStatus result of Some st \<Rightarrow> st | None \<Rightarrow> [])\<rparr>
      else if inRssFeed result then result\<lparr>status := ''requested''\<rparr>
      else result\<lparr>status := ''not_available''\<rparr>)"

definition initialAvailability :: availability where
  "initialAvailability =
     \<lparr>status = ''unknown'', plexAvailable = False, plexServers = [],
      managerStatus = None, inRssFeed = False\<rparr>"

text \<open>
  \<open>checkMovieAvailability\<close> and \<open>checkTvAvailability\<close> are the same function up to the
  checkers they call and the content type of the tracked item they look for.
\<close>

definition checkAvailability ::
  "string \<Rightarrow> (string \<Rightarrow> string \<Rightarrow> string option \<Rightarrow> 's \<Rightarrow> plex_result \<times> 's) \<Rightarrow>
     (string \<Rightarrow> int \<Rightarrow> 's \<Rightarrow> string option \<times> 's) \<Rightarrow> database \<Rightarrow> tmdb_item \<Rightarrow> user \<Rightarrow> 's \<Rightarrow>
     availability \<times> 's"
where
  "checkAvailability contentType plexCheck managerCheck db item usr s =
     (case checkServers (\<lambda>serverId. plexCheck serverId (tm_title item) (yearOf (tm_date item)))
             (\<lambda>serverId. managerCheck serverId (tm_id item))
             (u_primaryServerId usr) (u_servers usr) initialAvailability s of
        (result, s1) \<Rightarrow>
          (determineStatus
             (result\<lparr>inRssFeed := (rssItemFor db (tm_id item) contentType \<noteq> None)\<rparr>),
           s1))"

definition checkMovieAvailability ::
  "(string \<Rightarrow> string \<Rightarrow> string option \<Rightarrow> 's \<Rightarrow> plex_result \<times> 's) \<Rightarrow>
     (string \<Rightarrow> int \<Rightarrow> 's \<Rightarrow> string option \<times> 's) \<Rightarrow> database \<Rightarrow> tmdb_item \<Rightarrow> user \<Rightarrow> 's \<Rightarrow>
     availability \<times> 's"
where
  "checkMovieAvailability = checkAvailability ''movie''"

definition checkTvAvailability ::
  "(string \<Rightarrow> string \<Rightarrow> string option \<Rightarrow> 's \<Rightarrow> plex_result \<times> 's) \<Rightarrow>
     (string \<Rightarrow> int \<Rightarrow> 's \<Rightarrow> string option \<times> 's) \<Rightarrow> database \<Rightarrow> tmdb_item \<Rightarrow> user \<Rightarrow> 's \<Rightarrow>
     availability \<times> 's"
where
  "checkTvAvailability = checkAvailability ''tv''"

section \<open>Fulfillment executor\<close>

text \<open>
  The object returned by \<open>addToRadarr\<close> and \<open>addToSonarr\<close>; \<open>ar_id\<close> is \<open>radarrId\<close> or
  \<open>sonarrId\<close>. A field the code leaves out is \<open>False\<close> or \<open>None\<close>.
\<close>

record arr_result =
  ar_success :: bool
  ar_alreadyExists :: bool
  ar_error :: "string option"
  ar_id :: "int option"

definition arrFailure :: "string \<Rightarrow> arr_result" where
  "arrFailure msg =
     \<lparr>ar_success = False, ar_alreadyExists = False, ar_error = Some msg, ar_id = None\<rparr>"

text \<open>The \<open>catch\<close> block of both executors, for the validator code of each.\<close>

definition catchAdd :: "string \<Rightarrow> axios_error \<Rightarrow> arr_result" where
  "catchAdd validator e =
     (if err_status e = Some 400 \<and>
         (case err_data e of
            None \<Rightarrow> False
          | Some fs \<Rightarrow> find (\<lambda>f. errorCode f = Some validator) fs \<noteq> None)
      then \<lparr>ar_success = True, ar_alreadyExists = True, ar_error = None, ar_id = None\<rparr>
      else arrFailure
             (case err_data e of
                Some (f # _) \<Rightarrow>
                  (if truthy (errorMessage f)
                   then (case errorMessage f of Some m \<Rightarrow> m | None \<Rightarrow> err_message e)
                   else err_message e)
              | _ \<Rightarrow> err_message e))"

text \<open>
  The body shared by the two executors: the lookup answer, then the root folders,
  then the quality profiles, then the add call with the first of each. \<open>manager\<close> is
  the name in the messages, \<open>missing\<close> the message for an empty lookup.
\<close>

definition addVia ::
  "string \<Rightarrow> string \<Rightarrow> string \<Rightarrow> lookup_data option reply \<Rightarrow> string list option reply \<Rightarrow>
     int list option reply \<Rightarrow> ('w \<Rightarrow> add_body \<Rightarrow> int reply \<times> 'w) \<Rightarrow> 'w \<Rightarrow> arr_result \<times> 'w"
where
  "addVia manager validator missing lookup roots profiles add w =
     (case lookup of
        Rejected e \<Rightarrow> (catchAdd validator e, w)
      | Resolved None \<Rightarrow> (arrFailure missing, w)
      | Resolved (Some found) \<Rightarrow>
          (case roots of
             Rejected e \<Rightarrow> (catchAdd validator e, w)
           | Resolved None \<Rightarrow> (arrFailure (''No root folder configured in '' @ manager), w)
           | Resolved (Some []) \<Rightarrow> (arrFailure (''No root folder configured in '' @ manager), w)
           | Resolved (Some (rootFolderPath # _)) \<Rightarrow>
               (case profiles of
                  Rejected e \<Rightarrow> (catchAdd validator e, w)
                | Resolved None \<Rightarrow>
                    (arrFailure (''No quality profile configured in '' @ manager), w)
                | Resolved (Some []) \<Rightarrow>
                    (arrFailure (''No quality profile configured in '' @ manager), w)
                | Resolved (Some (qualityProfileId # _)) \<Rightarrow>
                    (case add w \<lparr>ab_title = ld_title found, ab_extId = ld_extId found,
                                  ab_year = ld_year found,
                                  ab_qualityProfileId = qualityProfileId,
                                  ab_rootFolderPath = rootFolderPath\<rparr> of
                       (Rejected e, w1) \<Rightarrow> (catchAdd validator e, w1)
                     | (Resolved newId, w1) \<Rightarrow>
                         (\<lparr>ar_success = True, ar_alreadyExists = False, ar_error = None,
                           ar_id = Some newId\<rparr>, w1)))))"

definition addToRadarr :: "'w api \<Rightarrow> 'w \<Rightarrow> plex_server \<Rightarrow> int \<Rightarrow> string \<Rightarrow> arr_result \<times> 'w" where
  "addToRadarr api w server tmdbId title =
     (if \<not> radarrConfigured server then (arrFailure ''Radarr not configured'', w)
      else addVia ''Radarr'' ''MovieExistsValidator'' ''Movie not found in TMDB''
             (radarr_lookup api w (ps_radarr_url server) (ps_radarr_api_key server) tmdbId)
             (radarr_rootfolder api w (ps_radarr_url server) (ps_radarr_api_key server))
             (radarr_qualityprofile api w (ps_radarr_url server) (ps_radarr_api_key server))
             (\<lambda>w1. radarr_add api w1 (ps_radarr_url server) (ps_radarr_api_key server)) w)"

text \<open>The series executor looks the title up and takes the first series found.\<close>

definition addToSonarr :: "'w api \<Rightarrow> 'w \<Rightarrow> plex_server \<Rightarrow> int \<Rightarrow> string \<Rightarrow> arr_result \<times> 'w" where
  "addToSonarr api w server tmdbId title =
     (if \<not> sonarrConfigured server then (arrFailure ''Sonarr not configured'', w)
      else addVia ''Sonarr'' ''SeriesExistsValidator'' ''Series not found''
             (case sonarr_lookup api w (ps_sonarr_url server) (ps_sonarr_api_key server) title of
                Rejected e \<Rightarrow> Rejected e
              | Resolved None \<Rightarrow> Resolved None
              | Resolved (Some []) \<Rightarrow> Resolved None
              | Resolved (Some (seriesData # _)) \<Rightarrow> Resolved (Some seriesData))
             (sonarr_rootfolder api w (ps_sonarr_url server) (ps_sonarr_api_key server))
             (sonarr_qualityprofile api w (ps_sonarr_url server) (ps_sonarr_api_key server))
             (\<lambda>w1. sonarr_add api w1 (ps_sonarr_url server) (ps_sonarr_api_key server)) w)"

section \<open>Request routes\<close>

record response =
  res_code :: nat
  res_error :: "string option"
  res_message :: "string option"
  res_status :: "string option"
  res_warning :: "string option"
  res_requestId :: "string option"
  res_rssId :: "string option"

definition errorResponse :: "nat \<Rightarrow> string \<Rightarrow> response" where
  "errorResponse code msg =
     \<lparr>res_code = code, res_error = Some msg, res_message = None, res_status = None,
      res_warning = None, res_requestId = None, res_rssId = None\<rparr>"


subsection \<open>Storage constraints\<close>

text \<open>
  \<open>rss_items\<close> has the primary key \<open>id\<close> and \<open>UNIQUE(server_id, content_type, tmdb_id)\<close>;
  \<open>content_requests\<close> has the primary key \<open>id\<close>. An insert that breaks one throws, which
  is \<open>None\<close>. The rows referenced by the foreign keys exist whenever the routes
  insert: the user is the signed-in one and the server row was just read.
\<close>

definition insertRssItem :: "database \<Rightarrow> rss_item \<Rightarrow> database option" where
  "insertRssItem db item =
     (if find (\<lambda>i. ri_id i = ri_id item \<or>
                    (ri_server_id i = ri_server_id item \<and>
                     ri_content_type i = ri_content_type item \<and>
                     ri_tmdb_id i = ri_tmdb_id item)) (rss_items db) \<noteq> None
      then None
      else Some (db\<lparr>rss_items := rss_items db @ [item]\<rparr>))"


definition insertAudit :: "database \<Rightarrow> string \<Rightarrow> string \<Rightarrow> string \<Rightarrow> string \<Rightarrow> database" where
  "insertAudit db userId action details ip =
     db\<lparr>audit_log := audit_log db @
          [\<lparr>al_user_id = userId, al_action = action, al_details = details,
            al_ip_address = ip\<rparr>]\<rparr>"

subsection \<open>\<open>GET /api/requests\<close>\<close>

record list_query =
  q_status :: "string option"
  q_type :: "string option"

record request_view =
  rv_id :: string
  rv_userId :: string
  rv_requestedByUsername :: "string option"
  rv_serverId :: string
  rv_serverName :: "string option"
  rv_tmdbId :: int
  rv_contentType :: string
  rv_title :: string
  rv_year :: "int option"
  rv_overview :: "string option"
  rv_posterPath :: "string option"
  rv_status :: string
  rv_seasons :: "string option"
  rv_requestedAt :: int
  rv_processedAt :: "int option"
  rv_processedByUsername :: "string option"
  rv_notes :: "string option"

definition usernameOf :: "database \<Rightarrow> string \<Rightarrow> string option" where
  "usernameOf db uid = map_option ur_username (find (\<lambda>u. ur_id u = uid) (users db))"

text \<open>One row of the joined select, as the handler maps it to JSON.\<close>

definition viewOf :: "database \<Rightarrow> content_request \<Rightarrow> request_view" where
  "viewOf db r =
     \<lparr>rv_id = cr_id r, rv_userId = cr_user_id r,
      rv_requestedByUsername = usernameOf db (cr_user_id r),
      rv_serverId = cr_server_id r,
      rv_serverName = map_option ps_name (getServer db (cr_server_id r)),
      rv_tmdbId = cr_tmdb_id r, rv_contentType = cr_content_type r, rv_title = cr_title r,
      rv_year = cr_year r, rv_overview = cr_overview r, rv_posterPath = cr_poster_path r,
      rv_status = cr_status r,
      rv_seasons = (if truthy (cr_seasons r) then cr_seasons r else None),
      rv_requestedAt = cr_requested_at r, rv_processedAt = cr_processed_at r,
      rv_processedByUsername =
        (case cr_processed_by r of None \<Rightarrow> None | Some p \<Rightarrow> usernameOf db p),
      rv_notes = cr_notes r\<rparr>"

text \<open>The \<open>WHERE\<close> clause assembled from the conditions that were pushed.\<close>

definition listCondition :: "user \<Rightarrow> list_query \<Rightarrow> content_request \<Rightarrow> bool" where
  "listCondition usr q r =
     ((if u_role usr \<noteq> ''admin'' then cr_user_id r = u_id usr else True) \<and>
      (if truthy (q_status q) then Some (cr_status r) = q_status q else True) \<and>
      (if truthy (q_type q) then Some (cr_content_type r) = q_type q else True))"

text \<open>
  The rows in the order of \<open>ORDER BY r.requested_at DESC\<close>; rows of equal time keep
  the order of the table.
\<close>

definition listRequests :: "database \<Rightarrow> user \<Rightarrow> list_query \<Rightarrow> request_view list" where
  "listRequests db usr q =
     map (viewOf db)
       (sort_key (\<lambda>r. - cr_requested_at r) (filter (listCondition usr q) (content_requests db)))"

subsection \<open>\<open>POST /api/requests\<close>\<close>


text \<open>\<open>v || null\<close> for a string and for a number.\<close>

definition orNull :: "string option \<Rightarrow> string option" where
  "orNull v = (if truthy v then v else None)"







definition managerName :: "string \<Rightarrow> string" where
  "managerName contentType = (if contentType = ''movie'' then ''Radarr'' else ''Sonarr'')"

definition initialArrResult :: arr_result where
  "initialArrResult =
     \<lparr>ar_success = False, ar_alreadyExists = False, ar_error = None, ar_id = None\<rparr>"

text \<open>\<open>if (contentType === 'movie') ... else if (contentType === 'tv') ...\<close>\<close>

definition pushToManager ::
  "'w api \<Rightarrow> 'w \<Rightarrow> plex_server \<Rightarrow> string \<Rightarrow> int \<Rightarrow> string \<Rightarrow> arr_result \<times> 'w"
where
  "pushToManager api w server contentType tmdbId title =
     (if contentType = ''movie'' then addToRadarr api w server tmdbId title
      else if contentType = ''tv'' then addToSonarr api w server tmdbId title
      else (initialArrResult, w))"






subsection \<open>\<open>POST /api/requests/:id/approve\<close>\<close>

record approve_body =
  ap_notes :: "string option"
  ap_seasons :: "string option"

text \<open>
  \<open>UPDATE content_requests SET status = ..., processed_at = datetime('now'),
  processed_by = ?, notes = ? WHERE id = ?\<close>
\<close>

definition stampRequest ::
  "database \<Rightarrow> string \<Rightarrow> string \<Rightarrow> int \<Rightarrow> string \<Rightarrow> string option \<Rightarrow> database"
where
  "stampRequest db requestId newStatus now processor notes =
     db\<lparr>content_requests :=
          map (\<lambda>r. if cr_id r = requestId
                   then r\<lparr>cr_status := newStatus, cr_processed_at := Some now,
                          cr_processed_by := Some processor, cr_notes := orNull notes\<rparr>
                   else r)
            (content_requests db)\<rparr>"

text \<open>
  The push to the manager: \<open>let arrResult = { success: false }; if (server) ...\<close>
\<close>

definition approvalPush :: "'w api \<Rightarrow> 'w \<Rightarrow> database \<Rightarrow> content_request \<Rightarrow> arr_result \<times> 'w" where
  "approvalPush api w db request =
     (case getServer db (cr_server_id request) of
        None \<Rightarrow> (initialArrResult, w)
      | Some server \<Rightarrow>
          pushToManager api w server (cr_content_type request) (cr_tmdb_id request)
            (cr_title request))"

text \<open>The tracked item that an approval inserts.\<close>

definition approvedItem :: "user \<Rightarrow> string \<Rightarrow> int \<Rightarrow> content_request \<Rightarrow> approve_body \<Rightarrow> rss_item" where
  "approvedItem usr uuid now request body =
     \<lparr>ri_id = uuid, ri_server_id = cr_server_id request,
      ri_content_type = cr_content_type request, ri_tmdb_id = cr_tmdb_id request,
      ri_title = cr_title request, ri_year = cr_year request,
      ri_overview = cr_overview request, ri_poster_path = cr_poster_path request,
      ri_seasons = (case ap_seasons body of Some js \<Rightarrow> Some js | None \<Rightarrow> cr_seasons request),
      ri_added_by = Some (u_id usr), ri_added_at = now\<rparr>"

text \<open>
  The handler, behind \<open>requireAdmin\<close>. \<open>uuid\<close> is the value of
  \<open>crypto.randomUUID()\<close>, \<open>now\<close> the value of \<open>datetime('now')\<close>.
\<close>

definition approveRequest ::
  "'w api \<Rightarrow> 'w \<Rightarrow> database \<Rightarrow> user \<Rightarrow> string \<Rightarrow> string \<Rightarrow> int \<Rightarrow> string \<Rightarrow> approve_body \<Rightarrow>
     response \<times> database \<times> 'w"
where
  "approveRequest api w db usr ip uuid now requestId body =
     (if u_role usr \<noteq> ''admin'' then (errorResponse 403 ''Admin access required'', db, w)
      else
        (case find (\<lambda>r. cr_id r = requestId) (content_requests db) of
           None \<Rightarrow> (errorResponse 404 ''Request not found'', db, w)
         | Some request \<Rightarrow>
             if cr_status request \<noteq> ''pending'' then
               (errorResponse 400 ''Request is not pending'', db, w)
             else
               (case approvalPush api w db request of
                  (arrResult, w1) \<Rightarrow>
                    (case insertRssItem db (approvedItem usr uuid now request body) of
                       None \<Rightarrow> (errorResponse 500 ''Failed to approve request'', db, w1)
                     | Some db1 \<Rightarrow>
                         (let db2 = stampRequest db1 (cr_id request) ''approved'' now (u_id usr)
                                      (ap_notes body);
                              db3 = insertAudit db2 (u_id usr) ''approve_request''
                                      (''Approved '' @ cr_content_type request @ '': '' @
                                       cr_title request) ip
                          in if ar_success arrResult then
                               (\<lparr>res_code = 200, res_error = None,
                                 res_message =
                                   Some (''Request approved and added to '' @
                                         managerName (cr_content_type request)),
                                 res_status = None, res_warning = None,
                                 res_requestId = None, res_rssId = Some uuid\<rparr>, db3, w1)
                             else
                               (\<lparr>res_code = 200, res_error = None,
                                 res_message = Some ''Request approved'',
                                 res_status = None,
                                 res_warning =
                                   Some (managerName (cr_content_type request) @
                                         '' integration failed: '' @
                                         showOpt (ar_error arrResult)),
                                 res_requestId = None, res_rssId = Some uuid\<rparr>, db3, w1))))))"

section \<open>A reference environment\<close>

text \<open>
  Modelled from the spec: the media server and the download managers are external
  services (section 6 of the specification), none of their code is in the
  repository. The reference world below answers every endpoint from a small state;
  its add endpoints refuse an item the manager already lists, with the status and
  the validator code that the executors test for, and otherwise list the item.
  An unreachable world rejects every call.
\<close>

record world =
  w_online :: bool
  w_sections :: "(directory \<times> plex_item list) list"
  w_movies :: "radarr_movie list"
  w_queue :: "int list"
  w_series :: "sonarr_series list"
  w_catalog :: "lookup_data list"
  w_roots :: "string list"
  w_profiles :: "int list"

definition offline :: axios_error where
  "offline = \<lparr>err_message = ''connect ECONNREFUSED'', err_status = None, err_data = None\<rparr>"

definition alreadyListed :: "string \<Rightarrow> axios_error" where
  "alreadyListed validator =
     \<lparr>err_message = ''Request failed with status code 400'', err_status = Some 400,
      err_data = Some [\<lparr>errorCode = Some validator,
                         errorMessage = Some ''This item has already been added''\<rparr>]\<rparr>"

definition answer :: "world \<Rightarrow> 'a \<Rightarrow> 'a reply" where
  "answer w x = (if w_online w then Resolved x else Rejected offline)"

definition simAddMovie :: "world \<Rightarrow> add_body \<Rightarrow> int reply \<times> world" where
  "simAddMovie w b =
     (if \<not> w_online w then (Rejected offline, w)
      else if find (\<lambda>m. rm_tmdbId m = ab_extId b) (w_movies w) \<noteq> None
        then (Rejected (alreadyListed ''MovieExistsValidator''), w)
      else (Resolved (int (length (w_movies w)) + 1),
            w\<lparr>w_movies := w_movies w @
                 [\<lparr>rm_id = int (length (w_movies w)) + 1, rm_tmdbId = ab_extId b,
                   rm_hasFile = False, rm_monitored = True, rm_status = ''released''\<rparr>]\<rparr>))"

definition simAddSeries :: "world \<Rightarrow> add_body \<Rightarrow> int reply \<times> world" where
  "simAddSeries w b =
     (if \<not> w_online w then (Rejected offline, w)
      else if find (\<lambda>x. ss_tvdbId x = Some (ab_extId b)) (w_series w) \<noteq> None
        then (Rejected (alreadyListed ''SeriesExistsValidator''), w)
      else (Resolved (int (length (w_series w)) + 1),
            w\<lparr>w_series := w_series w @
                 [\<lparr>ss_tvdbId = Some (ab_extId b), ss_title = ab_title b,
                   ss_percentOfEpisodes = Some 0\<rparr>]\<rparr>))"

text \<open>
  Modelled from the spec: the runtime is not code of the repository either. The
  reference runtime folds the ASCII letters and keeps every other byte, and reads
  an integer the way \<open>parseInt\<close> does: leading white space is skipped, a sign is
  read, a \<open>0x\<close> prefix selects base sixteen, and the longest run of digits is the
  value, \<open>NaN\<close> without a digit. It agrees with JavaScript on titles whose cased
  letters are ASCII and on numerals below \<open>2 ^ 53\<close>, and is used on such inputs only.
\<close>

definition asciiLowerChar :: "char \<Rightarrow> char" where
  "asciiLowerChar c =
     (case map_of (zip ''ABCDEFGHIJKLMNOPQRSTUVWXYZ'' ''abcdefghijklmnopqrstuvwxyz'') c of
        None \<Rightarrow> c
      | Some d \<Rightarrow> d)"

definition asciiToLowerCase :: "string \<Rightarrow> string" where
  "asciiToLowerCase s = map asciiLowerChar s"

definition decVal :: "char \<Rightarrow> nat option" where
  "decVal c = map_of (zip ''0123456789'' [0, 1, 2, 3, 4, 5, 6, 7, 8, 9]) c"

definition hexVal :: "char \<Rightarrow> nat option" where
  "hexVal c =
     map_of (zip ''0123456789abcdefABCDEF''
       [0, 1, 2, 3, 4, 5, 6, 7, 8, 9, 10, 11, 12, 13, 14, 15, 10, 11, 12, 13, 14, 15]) c"

fun parseDigits :: "(char \<Rightarrow> nat option) \<Rightarrow> nat \<Rightarrow> string \<Rightarrow> nat option \<Rightarrow> nat option" where
  "parseDigits val radix [] acc = acc"
| "parseDigits val radix (c # cs) acc =
     (case val c of
        None \<Rightarrow> acc
      | Some d \<Rightarrow>
          parseDigits val radix cs
            (Some (radix * (case acc of None \<Rightarrow> 0 | Some a \<Rightarrow> a) + d)))"

definition isWhite :: "char \<Rightarrow> bool" where
  "isWhite c = (c \<in> set [CHR '' '', CHR 0x09, CHR 0x0A, CHR 0x0B, CHR 0x0C, CHR 0x0D])"

definition smallParseInt :: "string \<Rightarrow> number option" where
  "smallParseInt s =
     (let t = dropWhile isWhite s;
          neg = (case t of [] \<Rightarrow> False | c # _ \<Rightarrow> c = CHR ''-'');
          u = (case t of [] \<Rightarrow> t
               | c # r \<Rightarrow> if c = CHR ''-'' \<or> c = CHR ''+'' then r else t);
          hex = (take 2 u = ''0x'' \<or> take 2 u = ''0X'');
          m = (if hex then parseDigits hexVal 16 (drop 2 u) None
               else parseDigits decVal 10 u None)
      in map_option (\<lambda>n. Finite (if neg then - int n else int n)) m)"

definition refRuntime :: runtime where
  "refRuntime = \<lparr>js_toLowerCase = asciiToLowerCase, js_parseInt = smallParseInt\<rparr>"

definition simApi :: "world api" where
  "simApi =
     \<lparr>jsRuntime = refRuntime,
      plex_sections = (\<lambda>w url token. answer w (Some (map fst (w_sections w)))),
      plex_all = (\<lambda>w url token sectionId ty title.
         answer w (Some (concat (map snd (filter (\<lambda>sec. dir_key (fst sec) = sectionId)
                                            (w_sections w)))))),
      radarr_movies = (\<lambda>w url key. answer w (w_movies w)),
      radarr_queue = (\<lambda>w url key. answer w (Some (w_queue w))),
      radarr_lookup = (\<lambda>w url key tmdbId.
         answer w (find (\<lambda>d. ld_extId d = tmdbId) (w_catalog w))),
      radarr_rootfolder = (\<lambda>w url key. answer w (Some (w_roots w))),
      radarr_qualityprofile = (\<lambda>w url key. answer w (Some (w_profiles w))),
      radarr_add = (\<lambda>w url key b. simAddMovie w b),
      sonarr_series_list = (\<lambda>w url key. answer w (w_series w)),
      sonarr_lookup = (\<lambda>w url key term.
         answer w (Some (filter (\<lambda>d. ld_title d = term) (w_catalog w)))),
      sonarr_rootfolder = (\<lambda>w url key. answer w (Some (w_roots w))),
      sonarr_qualityprofile = (\<lambda>w url key. answer w (Some (w_profiles w))),
      sonarr_add = (\<lambda>w url key b. simAddSeries w b)\<rparr>"

section \<open>Notions used in the properties\<close>

subsection \<open>The reduction rule of the specification\<close>

text \<open>
  The rule as the specification words it: available when present in any bound
  server's library, otherwise the manager status when it is not null, otherwise
  requested when a tracked record exists, otherwise not available.
\<close>

definition decideStatus :: "bool \<Rightarrow> string option \<Rightarrow> bool \<Rightarrow> string" where
  "decideStatus presentAnywhere manager tracked =
     (if presentAnywhere then ''available''
      else case manager of
             Some st \<Rightarrow> st
           | None \<Rightarrow> if tracked then ''requested'' else ''not_available'')"

text \<open>
  What the checkers answer for one bound server: the library checker's answer, and
  the manager checker's answer when the manager is asked.
\<close>

record observation =
  obs_server :: string
  obs_name :: string
  obs_present :: bool
  obs_manager :: "string option option"

text \<open>
  The checks the specification asks for: the library checker is asked for every
  bound server, the manager checker for the primary binding only. They are asked
  in the order of the bindings, each in the state the one before has left.
\<close>

fun answers ::
  "(string \<Rightarrow> 's \<Rightarrow> plex_result \<times> 's) \<Rightarrow> (string \<Rightarrow> 's \<Rightarrow> string option \<times> 's) \<Rightarrow>
     string option \<Rightarrow> plex_server list \<Rightarrow> 's \<Rightarrow> observation list \<times> 's"
where
  "answers library manager primary [] s = ([], s)"
| "answers library manager primary (server # rest) s =
     (case library (ps_id server) s of
        (present, s1) \<Rightarrow>
          (case (if Some (ps_id server) = primary
                 then (case manager (ps_id server) s1 of (a, s2) \<Rightarrow> (Some a, s2))
                 else (None, s1)) of
             (asked, s2) \<Rightarrow>
               (case answers library manager primary rest s2 of
                  (obs, s3) \<Rightarrow>
                    (\<lparr>obs_server = ps_id server, obs_name = ps_name server,
                      obs_present = pr_exists present, obs_manager = asked\<rparr> # obs, s3))))"

text \<open>The non-empty statuses the manager checker gave, in the order of the answers.\<close>

definition managerAnswers :: "observation list \<Rightarrow> string option list" where
  "managerAnswers obs =
     filter truthy (map (\<lambda>ob. case obs_manager ob of None \<Rightarrow> None | Some a \<Rightarrow> a) obs)"

text \<open>
  The aggregated object \<open>r\<close> and the final state \<open>s'\<close> obey the priority chain for an
  item of the given kind, checkers \<open>library\<close> and \<open>manager\<close> and a start state \<open>s\<close>:
  the flags of the object are those of the checkers' answers, the state is the one
  the checks leave, and the status is the specification's reduction of the
  answers.
\<close>

definition priorityChain ::
  "string \<Rightarrow> (string \<Rightarrow> string \<Rightarrow> string option \<Rightarrow> 's \<Rightarrow> plex_result \<times> 's) \<Rightarrow>
     (string \<Rightarrow> int \<Rightarrow> 's \<Rightarrow> string option \<times> 's) \<Rightarrow> database \<Rightarrow> tmdb_item \<Rightarrow> user \<Rightarrow> 's \<Rightarrow>
     availability \<Rightarrow> 's \<Rightarrow> bool"
where
  "priorityChain kind library manager db item usr s r s' =
     (case answers (\<lambda>serverId. library serverId (tm_title item) (yearOf (tm_date item)))
             (\<lambda>serverId. manager serverId (tm_id item))
             (u_primaryServerId usr) (u_servers usr) s of
        (obs, s1) \<Rightarrow>
          s' = s1 \<and>
          plexAvailable r = (\<exists>ob\<in>set obs. obs_present ob) \<and>
          plexServers r = map obs_name (filter obs_present obs) \<and>
          managerStatus r =
            (if managerAnswers obs = [] then None else last (managerAnswers obs)) \<and>
          inRssFeed r =
            (\<exists>i\<in>set (rss_items db). ri_tmdb_id i = tm_id item \<and> ri_content_type i = kind) \<and>
          status r =
            decideStatus (\<exists>ob\<in>set obs. obs_present ob) (managerStatus r)
              (\<exists>i\<in>set (rss_items db). ri_tmdb_id i = tm_id item \<and> ri_content_type i = kind))"

text \<open>
  The same for checkers whose answer does not depend on the state, \<open>present\<close> for
  the libraries and \<open>listed\<close> for the manager: available when some bound server's
  library has the item; otherwise the manager's status for the primary binding,
  when that binding is among the user's and the status is not empty; otherwise
  requested or not available.
\<close>

definition plainChain ::
  "string \<Rightarrow> (string \<Rightarrow> string \<Rightarrow> string option \<Rightarrow> plex_result) \<Rightarrow> (string \<Rightarrow> int \<Rightarrow> string option) \<Rightarrow>
     database \<Rightarrow> tmdb_item \<Rightarrow> user \<Rightarrow> availability \<Rightarrow> bool"
where
  "plainChain kind present listed db item usr r =
     (plexAvailable r =
        (\<exists>server\<in>set (u_servers usr).
           pr_exists (present (ps_id server) (tm_title item) (yearOf (tm_date item)))) \<and>
      managerStatus r =
        (case u_primaryServerId usr of
           None \<Rightarrow> None
         | Some p \<Rightarrow>
             if (\<exists>server\<in>set (u_servers usr). ps_id server = p) \<and>
                truthy (listed p (tm_id item))
             then listed p (tm_id item) else None) \<and>
      status r =
        decideStatus
          (\<exists>server\<in>set (u_servers usr).
             pr_exists (present (ps_id server) (tm_title item) (yearOf (tm_date item))))
          (managerStatus r)
          (\<exists>i\<in>set (rss_items db). ri_tmdb_id i = tm_id item \<and> ri_content_type i = kind))"

text \<open>
  The checkers as the aggregator calls them, at given clock readings: the result
  and the cache, without the list of calls.
\<close>

definition runPlexMovie ::
  "'w api \<Rightarrow> 'w \<Rightarrow> database \<Rightarrow> int \<Rightarrow> int \<Rightarrow> string \<Rightarrow> string \<Rightarrow> string option \<Rightarrow> cache \<Rightarrow>
     plex_result \<times> cache"
where
  "runPlexMovie api w db now later serverId title year c =
     (case checkPlexMovie api w db now later c serverId title year of
        (r, c1, calls) \<Rightarrow> (r, c1))"

definition runPlexTv ::
  "'w api \<Rightarrow> 'w \<Rightarrow> database \<Rightarrow> int \<Rightarrow> int \<Rightarrow> string \<Rightarrow> string \<Rightarrow> string option \<Rightarrow> cache \<Rightarrow>
     plex_result \<times> cache"
where
  "runPlexTv api w db now later serverId title year c =
     (case checkPlexTv api w db now later c serverId title year of
        (r, c1, calls) \<Rightarrow> (r, c1))"

definition runRadarr ::
  "'w api \<Rightarrow> 'w \<Rightarrow> database \<Rightarrow> int \<Rightarrow> int \<Rightarrow> string \<Rightarrow> int \<Rightarrow> cache \<Rightarrow> string option \<times> cache"
where
  "runRadarr api w db now later serverId tmdbId c =
     (case checkRadarrMovie api w db now later c serverId tmdbId of
        (r, c1, calls) \<Rightarrow> (r, c1))"

definition runSonarr ::
  "'w api \<Rightarrow> 'w \<Rightarrow> database \<Rightarrow> int \<Rightarrow> int \<Rightarrow> string \<Rightarrow> int \<Rightarrow> cache \<Rightarrow> string option \<times> cache"
where
  "runSonarr api w db now later serverId tmdbId c =
     (case checkSonarrSeries api w db now later c serverId tmdbId of
        (r, c1, calls) \<Rightarrow> (r, c1))"

subsection \<open>Library records\<close>

text \<open>
  The match as the specification words it for a supplied year: equal titles
  without regard to case, and equal years unless the remote record has none.
\<close>

definition specMatch :: "runtime \<Rightarrow> string \<Rightarrow> string \<Rightarrow> plex_item \<Rightarrow> bool" where
  "specMatch rt title year m =
     (js_toLowerCase rt (item_title m) = js_toLowerCase rt title \<and>
      (case item_year m of None \<Rightarrow> True | Some n \<Rightarrow> js_parseInt rt year = Some n))"

subsection \<open>Cache entries and remote errors\<close>

text \<open>
  The cache without the entry of a key.
\<close>

definition dropPlex :: "cache \<Rightarrow> string \<Rightarrow> cache" where
  "dropPlex c k = c\<lparr>plexCache := (plexCache c)(k := None)\<rparr>"

definition dropStatus :: "cache \<Rightarrow> string \<Rightarrow> cache" where
  "dropStatus c k = c\<lparr>statusCache := (statusCache c)(k := None)\<rparr>"

text \<open>
  A read treats the entry of its key as absent: \<open>run\<close> is the read on the cache \<open>c\<close>
  and \<open>bare\<close> the same read on the cache without the entry. Both give the same
  result and make the same remote calls, and the entry is not evicted: the read
  leaves the cache as it was, or as \<open>stored\<close>, with the key overwritten.
\<close>

definition asAbsent ::
  "'r \<times> cache \<times> call list \<Rightarrow> 'r \<times> cache \<times> call list \<Rightarrow> cache \<Rightarrow> cache \<Rightarrow> bool"
where
  "asAbsent run bare c stored =
     (fst run = fst bare \<and> snd (snd run) = snd (snd bare) \<and>
      (fst (snd run) = c \<or> fst (snd run) = stored))"





subsection \<open>Requests\<close>

text \<open>
  The listing without query filters, and the records a user owns.
\<close>

definition noFilter :: list_query where
  "noFilter = \<lparr>q_status = None, q_type = None\<rparr>"

definition ownedBy :: "string \<Rightarrow> content_request \<Rightarrow> bool" where
  "ownedBy uid r = (cr_user_id r = uid)"




text \<open>
  A tracked item for the item, the kind and the server.
\<close>

definition trackedItem :: "database \<Rightarrow> int \<Rightarrow> string \<Rightarrow> string \<Rightarrow> bool" where
  "trackedItem db tmdbId contentType serverId =
     (\<exists>i\<in>set (rss_items db).
        ri_tmdb_id i = tmdbId \<and> ri_content_type i = contentType \<and> ri_server_id i = serverId)"

text \<open>
  The record as an approval leaves it.
\<close>

definition approvedRecord :: "user \<Rightarrow> int \<Rightarrow> content_request \<Rightarrow> approve_body \<Rightarrow> content_request" where
  "approvedRecord usr now request body =
     request\<lparr>cr_status := ''approved'', cr_processed_at := Some now,
             cr_processed_by := Some (u_id usr), cr_notes := orNull (ap_notes body)\<rparr>"

text \<open>
  Success with the already-exists flag, and the rejection that leads to it: status
  400 with a validation failure of the given code.
\<close>

definition existsResult :: arr_result where
  "existsResult = \<lparr>ar_success = True, ar_alreadyExists = True, ar_error = None, ar_id = None\<rparr>"

definition rejectsAsExisting :: "string \<Rightarrow> axios_error \<Rightarrow> bool" where
  "rejectsAsExisting validator e =
     (err_status e = Some 400 \<and>
      (case err_data e of
         None \<Rightarrow> False
       | Some fs \<Rightarrow> find (\<lambda>f. errorCode f = Some validator) fs \<noteq> None))"

section \<open>Concrete inputs\<close>

text \<open>
  One installation, used to run the routes on concrete inputs: a server \<open>s1\<close> with
  both managers configured, a server \<open>s2\<close> with none, an administrator and three
  users, a library that has the movie 603 under a lower-case title and without a
  year, and a manager that monitors the movie without a file.
\<close>

definition serverOne :: plex_server where
  "serverOne =
     \<lparr>ps_id = ''s1'', ps_name = ''Home'', ps_url = ''http://plex'', ps_token = ''t'',
      ps_radarr_url = Some ''http://radarr'', ps_radarr_api_key = Some ''k'',
      ps_sonarr_url = Some ''http://sonarr'', ps_sonarr_api_key = Some ''k''\<rparr>"

definition serverTwo :: plex_server where
  "serverTwo =
     \<lparr>ps_id = ''s2'', ps_name = ''Attic'', ps_url = ''http://plex2'', ps_token = ''t'',
      ps_radarr_url = None, ps_radarr_api_key = None,
      ps_sonarr_url = None, ps_sonarr_api_key = None\<rparr>"

definition matrixRecord :: plex_item where
  "matrixRecord = \<lparr>item_title = ''The Matrix'', item_year = None\<rparr>"

definition filedRecord :: plex_item where
  "filedRecord = \<lparr>item_title = ''THE MATRIX'', item_year = Some (Finite 1999)\<rparr>"

definition homeWorld :: world where
  "homeWorld =
     \<lparr>w_online = True,
      w_sections = [(\<lparr>dir_type = ''movie'', dir_key = ''1''\<rparr>, [matrixRecord])],
      w_movies = [\<lparr>rm_id = 7, rm_tmdbId = 603, rm_hasFile = False, rm_monitored = True,
                   rm_status = ''released''\<rparr>],
      w_queue = [],
      w_series = [\<lparr>ss_tvdbId = Some 121361, ss_title = ''Game of Thrones'',
                   ss_percentOfEpisodes = Some 100\<rparr>],
      w_catalog = [\<lparr>ld_title = ''The Matrix'', ld_extId = 603, ld_year = 1999\<rparr>,
                   \<lparr>ld_title = ''Heat'', ld_extId = 949, ld_year = 1995\<rparr>,
                   \<lparr>ld_title = ''Game of Thrones'', ld_extId = 121361, ld_year = 2011\<rparr>],
      w_roots = [''/movies''],
      w_profiles = [1]\<rparr>"

definition cinemaWorld :: world where
  "cinemaWorld =
     homeWorld\<lparr>w_sections :=
       [(\<lparr>dir_type = ''movie'', dir_key = ''1''\<rparr>, [matrixRecord, filedRecord]),
        (\<lparr>dir_type = ''show'', dir_key = ''2''\<rparr>,
         [\<lparr>item_title = ''Game of Thrones'', item_year = Some (Finite 2011)\<rparr>])]\<rparr>"


definition offlineWorld :: world where
  "offlineWorld = homeWorld\<lparr>w_online := False\<rparr>"

definition alice :: user where
  "alice = \<lparr>u_id = ''alice'', u_role = ''user'', u_canAddDirectly = False,
            u_primaryServerId = Some ''s1'', u_servers = [serverOne, serverTwo]\<rparr>"



definition adminUser :: user where
  "adminUser = \<lparr>u_id = ''root'', u_role = ''admin'', u_canAddDirectly = True,
           u_primaryServerId = Some ''s1'', u_servers = [serverOne, serverTwo]\<rparr>"

definition heatRequest :: content_request where
  "heatRequest =
     \<lparr>cr_id = ''r1'', cr_user_id = ''alice'', cr_server_id = ''s1'', cr_tmdb_id = 949,
      cr_content_type = ''movie'', cr_title = ''Heat'', cr_year = Some 1995,
      cr_overview = None, cr_poster_path = None, cr_status = ''pending'',
      cr_seasons = None, cr_requested_at = 100, cr_processed_at = None,
      cr_processed_by = None, cr_notes = None\<rparr>"

definition bobRequest :: content_request where
  "bobRequest =
     \<lparr>cr_id = ''r2'', cr_user_id = ''bob'', cr_server_id = ''s2'', cr_tmdb_id = 603,
      cr_content_type = ''movie'', cr_title = ''The Matrix'', cr_year = Some 1999,
      cr_overview = None, cr_poster_path = None, cr_status = ''approved'',
      cr_seasons = None, cr_requested_at = 200, cr_processed_at = Some 300,
      cr_processed_by = Some ''root'', cr_notes = None\<rparr>"

definition homeDb :: database where
  "homeDb =
     \<lparr>plex_servers = [serverOne, serverTwo],
      users = [\<lparr>ur_id = ''alice'', ur_username = ''alice''\<rparr>,
               \<lparr>ur_id = ''bob'', ur_username = ''bob''\<rparr>,
               \<lparr>ur_id = ''carol'', ur_username = ''carol''\<rparr>,
               \<lparr>ur_id = ''root'', ur_username = ''root''\<rparr>],
      content_requests = [heatRequest],
      rss_items = [],
      audit_log = []\<rparr>"

definition busyDb :: database where
  "busyDb = homeDb\<lparr>content_requests := [bobRequest, heatRequest]\<rparr>"

definition trackedDb :: database where
  "trackedDb =
     homeDb\<lparr>rss_items :=
       [\<lparr>ri_id = ''x1'', ri_server_id = ''s1'', ri_content_type = ''movie'', ri_tmdb_id = 949,
         ri_title = ''Heat'', ri_year = Some 1995, ri_overview = None, ri_poster_path = None,
         ri_seasons = None, ri_added_by = Some ''root'', ri_added_at = 50\<rparr>]\<rparr>"


definition matrix :: tmdb_item where
  "matrix = \<lparr>tm_id = 603, tm_title = ''The Matrix'', tm_date = Some ''1999-03-31''\<rparr>"

definition heat :: tmdb_item where
  "heat = \<lparr>tm_id = 949, tm_title = ''Heat'', tm_date = Some ''1995-12-15''\<rparr>"

definition thrones :: tmdb_item where
  "thrones = \<lparr>tm_id = 1399, tm_title = ''Game of Thrones'', tm_date = Some ''2011-04-17''\<rparr>"



definition noNotes :: approve_body where
  "noNotes = \<lparr>ap_notes = None, ap_seasons = None\<rparr>"


definition warmCache :: cache where
  "warmCache =
     putStatus
       (putPlex emptyCache (plexCacheKey ''movie'' ''s1'' ''The Matrix'' (Some ''1999''))
          \<lparr>pr_exists = True, pr_match = Some filedRecord\<rparr> 1000)
       (radarrCacheKey ''s1'' 603) (Some ''queued'') 1000"

text \<open>
  Entries of a server that is registered no more, and of a server whose movie
  manager is configured no more.
\<close>

definition staleCache :: cache where
  "staleCache =
     putStatus
       (putPlex emptyCache (plexCacheKey ''movie'' ''s9'' ''The Matrix'' (Some ''1999''))
          \<lparr>pr_exists = True, pr_match = Some filedRecord\<rparr> 1000)
       (radarrCacheKey ''s2'' 603) (Some ''queued'') 1000"

text \<open>
  Runs of the aggregator and of the checkers on these inputs.
\<close>

definition movieRun :: "availability \<times> cache" where
  "movieRun =
     checkMovieAvailability (runPlexMovie simApi homeWorld homeDb 0 1)
       (runRadarr simApi homeWorld homeDb 0 1) homeDb matrix alice emptyCache"

definition tvRun :: "availability \<times> cache" where
  "tvRun =
     checkTvAvailability (runPlexTv simApi homeWorld homeDb 0 1)
       (runSonarr simApi homeWorld homeDb 0 1) homeDb thrones alice emptyCache"

definition cinemaRun :: "availability \<times> cache" where
  "cinemaRun =
     checkMovieAvailability (runPlexMovie simApi cinemaWorld homeDb 0 1)
       (runRadarr simApi cinemaWorld homeDb 0 1) homeDb matrix alice emptyCache"

definition trackedRun :: "availability \<times> cache" where
  "trackedRun =
     checkMovieAvailability (runPlexMovie simApi homeWorld trackedDb 0 1)
       (runRadarr simApi homeWorld trackedDb 0 1) trackedDb heat alice emptyCache"


definition cinemaPlexRun :: "plex_result \<times> cache \<times> call list" where
  "cinemaPlexRun =
     checkPlexMovie simApi cinemaWorld homeDb 0 1 emptyCache ''s1'' ''The Matrix'' (Some ''1999'')"

definition cinemaTvRun :: "plex_result \<times> cache \<times> call list" where
  "cinemaTvRun =
     checkPlexTv simApi cinemaWorld homeDb 0 1 emptyCache ''s1'' ''Game of Thrones'' (Some ''2011'')"










section \<open>The two halves of the cache\<close>

text \<open>A key of a library checker is never a key of a manager checker.\<close>

lemma cache_keys_disjoint:
  "plexCacheKey kind serverId title year \<noteq> radarrCacheKey serverId' tmdbId"
  "plexCacheKey kind serverId title year \<noteq> sonarrCacheKey serverId' tmdbId"
  by (simp_all add: plexCacheKey_def radarrCacheKey_def sonarrCacheKey_def)

section \<open>The aggregator follows the priority chain\<close>

lemma managerAnswers_Cons:
  "managerAnswers (ob # obs) =
     (case obs_manager ob of
        Some a \<Rightarrow> if truthy a then a # managerAnswers obs else managerAnswers obs
      | None \<Rightarrow> managerAnswers obs)"
  by (simp add: managerAnswers_def truthy_def split: option.splits)

lemma checkServers_answers:
  "checkServers pc mc primary servers acc s =
     (case answers pc mc primary servers s of
        (obs, s') \<Rightarrow>
          (acc\<lparr>plexAvailable := plexAvailable acc \<or> (\<exists>ob\<in>set obs. obs_present ob),
               plexServers := plexServers acc @ map obs_name (filter obs_present obs),
               managerStatus := (if managerAnswers obs = [] then managerStatus acc
                                 else last (managerAnswers obs))\<rparr>, s'))"
proof (induction servers arbitrary: acc s)
  case Nil
  show ?case by (simp add: managerAnswers_def)
next
  case (Cons server rest)
  show ?case
    by (auto simp: Cons.IH Let_def managerAnswers_Cons split: prod.splits)
qed

lemma managerAnswers_truthy: "a \<in> set (managerAnswers obs) \<Longrightarrow> truthy a"
  by (simp add: managerAnswers_def)

lemma last_managerAnswers_truthy:
  "managerAnswers obs \<noteq> [] \<Longrightarrow> truthy (last (managerAnswers obs))"
  using managerAnswers_truthy [of "last (managerAnswers obs)" obs] by simp

lemma rssItemFor_iff:
  "(rssItemFor db tmdbId kind \<noteq> None) =
     (\<exists>i\<in>set (rss_items db). ri_tmdb_id i = tmdbId \<and> ri_content_type i = kind)"
  by (auto simp: rssItemFor_def find_None_iff)

lemma determineStatus_decide:
  "managerStatus a = None \<or> truthy (managerStatus a) \<Longrightarrow>
     status (determineStatus a) = decideStatus (plexAvailable a) (managerStatus a) (inRssFeed a) \<and>
     plexAvailable (determineStatus a) = plexAvailable a \<and>
     plexServers (determineStatus a) = plexServers a \<and>
     managerStatus (determineStatus a) = managerStatus a \<and>
     inRssFeed (determineStatus a) = inRssFeed a"
  by (auto simp: determineStatus_def decideStatus_def truthy_def split: option.splits)

lemma checkAvailability_chain:
  "priorityChain kind pc mc db item usr s
     (fst (checkAvailability kind pc mc db item usr s))
     (snd (checkAvailability kind pc mc db item usr s))"
proof -
  obtain obs s1 where ans:
    "answers (\<lambda>serverId. pc serverId (tm_title item) (yearOf (tm_date item)))
       (\<lambda>serverId. mc serverId (tm_id item)) (u_primaryServerId usr) (u_servers usr) s = (obs, s1)"
    by (cases "answers (\<lambda>serverId. pc serverId (tm_title item) (yearOf (tm_date item)))
       (\<lambda>serverId. mc serverId (tm_id item)) (u_primaryServerId usr) (u_servers usr) s")
  define a where "a = initialAvailability
       \<lparr>plexAvailable := (\<exists>ob\<in>set obs. obs_present ob),
        plexServers := map obs_name (filter obs_present obs),
        managerStatus := (if managerAnswers obs = [] then None else last (managerAnswers obs)),
        inRssFeed := (rssItemFor db (tm_id item) kind \<noteq> None)\<rparr>"
  have run: "checkAvailability kind pc mc db item usr s = (determineStatus a, s1)"
    by (simp add: checkAvailability_def checkServers_answers ans a_def initialAvailability_def)
  have ms: "managerStatus a = (if managerAnswers obs = [] then None else last (managerAnswers obs))"
    by (simp add: a_def)
  have ok: "managerStatus a = None \<or> truthy (managerStatus a)"
    using ms last_managerAnswers_truthy [of obs] by auto
  have pa: "plexAvailable a = (\<exists>ob\<in>set obs. obs_present ob)"
    by (simp add: a_def)
  have ps: "plexServers a = map obs_name (filter obs_present obs)"
    by (simp add: a_def)
  have "inRssFeed a = (rssItemFor db (tm_id item) kind \<noteq> None)"
    unfolding a_def by simp
  then have rss: "inRssFeed a = (\<exists>i\<in>set (rss_items db). ri_tmdb_id i = tm_id item \<and> ri_content_type i = kind)"
    unfolding rssItemFor_iff .
  from determineStatus_decide [OF ok] pa ps ms rss
  show ?thesis
    unfolding priorityChain_def run ans
    by simp
qed

lemma answers_plain:
  "answers (\<lambda>serverId s. (present serverId, s)) (\<lambda>serverId s. (listed serverId, s)) primary servers s =
     (map (\<lambda>server. \<lparr>obs_server = ps_id server, obs_name = ps_name server,
                      obs_present = pr_exists (present (ps_id server)),
                      obs_manager = (if Some (ps_id server) = primary
                                     then Some (listed (ps_id server)) else None)\<rparr>) servers, s)"
  by (induction servers arbitrary: s) simp_all

lemma managerAnswers_plain:
  "managerAnswers
     (map (\<lambda>server. \<lparr>obs_server = ps_id server, obs_name = ps_name server,
                      obs_present = pr_exists (present (ps_id server)),
                      obs_manager = (if Some (ps_id server) = primary
                                     then Some (listed (ps_id server)) else None)\<rparr>) servers) =
     (case primary of
        None \<Rightarrow> []
      | Some p \<Rightarrow>
          if truthy (listed p)
          then replicate (length (filter (\<lambda>server. ps_id server = p) servers)) (listed p)
          else [])"
  by (induction servers) (auto simp: managerAnswers_Cons managerAnswers_def truthy_def split: option.splits)

lemma replicate_filter_Nil:
  "(replicate (length (filter P xs)) x = []) = (\<not> (\<exists>y\<in>set xs. P y))"
  by (simp add: filter_empty_conv)

lemma last_replicate_filter:
  "\<exists>y\<in>set xs. P y \<Longrightarrow> last (replicate (length (filter P xs)) x) = x"
  by (cases "length (filter P xs)") (auto simp: filter_empty_conv)

lemma checkAvailability_plain:
  "plainChain kind present listed db item usr
     (fst (checkAvailability kind (\<lambda>serverId title year s. (present serverId title year, s))
             (\<lambda>serverId tmdbId s. (listed serverId tmdbId, s)) db item usr s))"
proof -
  let ?pc = "\<lambda>serverId title year s. (present serverId title year, s)"
  let ?mc = "\<lambda>serverId tmdbId s. (listed serverId tmdbId, s)"
  let ?r = "fst (checkAvailability kind ?pc ?mc db item usr s)"
  let ?obs = "map (\<lambda>server. \<lparr>obs_server = ps_id server, obs_name = ps_name server,
                      obs_present = pr_exists (present (ps_id server) (tm_title item) (yearOf (tm_date item))),
                      obs_manager = (if Some (ps_id server) = u_primaryServerId usr
                                     then Some (listed (ps_id server) (tm_id item)) else None)\<rparr>) (u_servers usr)"
  have ans: "answers (\<lambda>serverId. ?pc serverId (tm_title item) (yearOf (tm_date item)))
       (\<lambda>serverId. ?mc serverId (tm_id item)) (u_primaryServerId usr) (u_servers usr) s = (?obs, s)"
    using answers_plain [of "\<lambda>serverId. present serverId (tm_title item) (yearOf (tm_date item))"
        "\<lambda>serverId. listed serverId (tm_id item)" "u_primaryServerId usr" "u_servers usr" s]
    by simp
  have ma: "managerAnswers ?obs =
     (case u_primaryServerId usr of
        None \<Rightarrow> []
      | Some p \<Rightarrow>
          if truthy (listed p (tm_id item))
          then replicate (length (filter (\<lambda>server. ps_id server = p) (u_servers usr))) (listed p (tm_id item))
          else [])"
    using managerAnswers_plain [of "\<lambda>serverId. present serverId (tm_title item) (yearOf (tm_date item))"
        "u_primaryServerId usr" "\<lambda>serverId. listed serverId (tm_id item)" "u_servers usr"]
    by simp
  from checkAvailability_chain [of kind ?pc ?mc db item usr s]
  have pc: "plexAvailable ?r = (\<exists>ob\<in>set ?obs. obs_present ob)"
    and ms: "managerStatus ?r = (if managerAnswers ?obs = [] then None else last (managerAnswers ?obs))"
    and st: "status ?r = decideStatus (\<exists>ob\<in>set ?obs. obs_present ob) (managerStatus ?r)
              (\<exists>i\<in>set (rss_items db). ri_tmdb_id i = tm_id item \<and> ri_content_type i = kind)"
    unfolding priorityChain_def ans by simp_all
  have ex: "(\<exists>ob\<in>set ?obs. obs_present ob) =
      (\<exists>server\<in>set (u_servers usr).
           pr_exists (present (ps_id server) (tm_title item) (yearOf (tm_date item))))"
    by auto
  have ms': "managerStatus ?r =
        (case u_primaryServerId usr of
           None \<Rightarrow> None
         | Some p \<Rightarrow>
             if (\<exists>server\<in>set (u_servers usr). ps_id server = p) \<and>
                truthy (listed p (tm_id item))
             then listed p (tm_id item) else None)"
    unfolding ms ma
    by (auto simp: replicate_filter_Nil last_replicate_filter filter_empty_conv split: option.splits)
  show ?thesis
    unfolding plainChain_def
    using pc st ms' unfolding ex by simp
qed

text \<open>
  Claim C1. For every item, of either kind, the aggregated object is the fixed
  priority chain over what the checkers answer for the user's bindings, the
  library checker asked for every bound server and the manager checker for the
  primary one: available when the library checker finds the item on some bound
  server, whatever the manager says; otherwise the manager's status when it is not
  empty; otherwise requested when a tracked record exists for the item and the
  kind; otherwise not available. The checkers are arbitrary here, so the chain
  holds for cached and for fresh answers alike; for checkers that do not read the
  state the chain is read off the two functions directly.
\<close>

theorem aggregated_status_priority_chain:
  "priorityChain ''movie'' library manager db item usr s
     (fst (checkMovieAvailability library manager db item usr s))
     (snd (checkMovieAvailability library manager db item usr s)) \<and>
   priorityChain ''tv'' library' manager' db item usr s
     (fst (checkTvAvailability library' manager' db item usr s))
     (snd (checkTvAvailability library' manager' db item usr s)) \<and>
   plainChain ''movie'' present listed db item usr
     (fst (checkMovieAvailability (\<lambda>serverId title year s. (present serverId title year, s))
             (\<lambda>serverId tmdbId s. (listed serverId tmdbId, s)) db item usr s)) \<and>
   plainChain ''tv'' present' listed' db item usr
     (fst (checkTvAvailability (\<lambda>serverId title year s. (present' serverId title year, s))
             (\<lambda>serverId tmdbId s. (listed' serverId tmdbId, s)) db item usr s))"
  unfolding checkMovieAvailability_def checkTvAvailability_def
  using checkAvailability_chain [of "''movie''" library manager db item usr s]
    checkAvailability_chain [of "''tv''" library' manager' db item usr s]
    checkAvailability_plain [of "''movie''" present listed db item usr s]
    checkAvailability_plain [of "''tv''" present' listed' db item usr s]
  by blast

theorem aggregated_status_priority_chain_witness:
  "priorityChain ''movie'' (runPlexMovie simApi cinemaWorld homeDb 0 1)
     (runRadarr simApi cinemaWorld homeDb 0 1) homeDb matrix alice emptyCache
     (fst cinemaRun) (snd cinemaRun) \<and>
   status (fst cinemaRun) = ''available'' \<and> managerStatus (fst cinemaRun) = Some ''missing'' \<and>
   priorityChain ''movie'' (runPlexMovie simApi homeWorld homeDb 0 1)
     (runRadarr simApi homeWorld homeDb 0 1) homeDb matrix alice emptyCache
     (fst movieRun) (snd movieRun) \<and>
   status (fst movieRun) = ''missing'' \<and>
   priorityChain ''movie'' (runPlexMovie simApi homeWorld trackedDb 0 1)
     (runRadarr simApi homeWorld trackedDb 0 1) trackedDb heat alice emptyCache
     (fst trackedRun) (snd trackedRun) \<and>
   status (fst trackedRun) = ''requested'' \<and>
   priorityChain ''tv'' (runPlexTv simApi homeWorld homeDb 0 1)
     (runSonarr simApi homeWorld homeDb 0 1) homeDb thrones alice emptyCache
     (fst tvRun) (snd tvRun) \<and>
   status (fst tvRun) = ''not_available''"
proof -
  have s0: "status (fst cinemaRun) = ''available''"
    "managerStatus (fst cinemaRun) = Some ''missing''"
    by code_simp+
  have s1: "status (fst movieRun) = ''missing''"
    by code_simp
  have s2: "status (fst trackedRun) = ''requested''"
    by code_simp
  have s3: "status (fst tvRun) = ''not_available''"
    by code_simp
  note c0 = aggregated_status_priority_chain
         [of "runPlexMovie simApi cinemaWorld homeDb 0 1" "runRadarr simApi cinemaWorld homeDb 0 1"
             homeDb matrix alice emptyCache, THEN conjunct1, folded cinemaRun_def]
  note c1 = aggregated_status_priority_chain
         [of "runPlexMovie simApi homeWorld homeDb 0 1" "runRadarr simApi homeWorld homeDb 0 1"
             homeDb matrix alice emptyCache, THEN conjunct1, folded movieRun_def]
  note c2 = aggregated_status_priority_chain
         [of "runPlexMovie simApi homeWorld trackedDb 0 1" "runRadarr simApi homeWorld trackedDb 0 1"
             trackedDb heat alice emptyCache, THEN conjunct1, folded trackedRun_def]
  note c3 = aggregated_status_priority_chain
         [where db = homeDb and item = thrones and usr = alice and s = emptyCache
            and library' = "runPlexTv simApi homeWorld homeDb 0 1"
            and manager' = "runSonarr simApi homeWorld homeDb 0 1",
          THEN conjunct2, THEN conjunct1, folded tvRun_def]
  from c0 s0 c1 s1 c2 s2 c3 s3 show ?thesis
    by blast
qed

section \<open>Matching a library record\<close>

lemma scanSections_hit:
  "scanSections api w server ty title year secs = (ScanHit m, calls) \<Longrightarrow>
     plexMatch (jsRuntime api) title year m"
proof (induction secs arbitrary: calls)
  case Nil
  then show ?case by simp
next
  case (Cons sec rest)
  then show ?case
    by (auto simp: find_Some_iff split: reply.splits option.splits prod.splits)
qed

lemma checkPlex_hit:
  assumes "checkPlex kind secType ty api w db now later c serverId title year = (r, c1, calls)"
    and "freshEntry (plexCache c (plexCacheKey kind serverId title year)) now = None"
    and "pr_exists r"
  shows "\<exists>m. pr_match r = Some m \<and> plexMatch (jsRuntime api) title year m"
  using assms
  by (auto simp: checkPlex_def Let_def notPresent_def
      split: option.splits reply.splits prod.splits scan.splits dest: scanSections_hit)

lemma plexMatch_year:
  "y \<noteq> [] \<Longrightarrow> plexMatch rt title (Some y) m =
     (js_toLowerCase rt (item_title m) = js_toLowerCase rt title \<and>
      (\<exists>n. js_parseInt rt y = Some n \<and> item_year m = Some n))"
  by (auto simp: plexMatch_def split: option.splits)

lemma plexMatch_no_year:
  "plexMatch rt title None m = (js_toLowerCase rt (item_title m) = js_toLowerCase rt title)"
  "plexMatch rt title (Some []) m = (js_toLowerCase rt (item_title m) = js_toLowerCase rt title)"
  by (auto simp: plexMatch_def)

text \<open>
  Claim C2 reads the year test as skipped when the remote record has no year. The
  code skips it when the caller supplies no year: with the year 1999 supplied, a
  record of the right title and no year satisfies the claim's condition, is not
  matched whatever the runtime's \<open>toLowerCase\<close> and \<open>parseInt\<close> are, and the check
  answers that the item is not present.
\<close>

theorem plex_match_counterexample:
  "(\<forall>rt. specMatch rt ''The Matrix'' ''1999'' matrixRecord \<and>
         \<not> plexMatch rt ''The Matrix'' (Some ''1999'') matrixRecord) \<and>
   \<not> pr_exists (fst (checkPlexMovie simApi homeWorld homeDb 0 1 emptyCache ''s1''
                        ''The Matrix'' (Some ''1999'')))"
proof -
  have "item_title matrixRecord = ''The Matrix''" "item_year matrixRecord = None"
    by (simp_all add: matrixRecord_def)
  then have "\<forall>rt. specMatch rt ''The Matrix'' ''1999'' matrixRecord \<and>
         \<not> plexMatch rt ''The Matrix'' (Some ''1999'') matrixRecord"
    by (simp add: specMatch_def plexMatch_def split: option.splits)
  moreover have "\<not> pr_exists (fst (checkPlexMovie simApi homeWorld homeDb 0 1 emptyCache ''s1''
                        ''The Matrix'' (Some ''1999'')))"
    by code_simp
  ultimately show ?thesis by blast
qed

text \<open>
  Claim C2, amended. When a non-empty year is supplied, a remote record matches
  exactly when the titles are equal without regard to case, which is to say equal
  after the runtime's \<open>toLowerCase\<close>, and the record has a year equal to the
  supplied one read by the runtime's \<open>parseInt\<close>; a record without a year does not
  match. The year test is skipped only when no year (or an empty one) is supplied,
  and then the title alone decides. A fresh check that answers present carries a
  record that matches in this sense.
\<close>

theorem plex_match_year_required:
  "(y \<noteq> [] \<longrightarrow>
      plexMatch rt title (Some y) m =
        (js_toLowerCase rt (item_title m) = js_toLowerCase rt title \<and>
         (\<exists>n. js_parseInt rt y = Some n \<and> item_year m = Some n))) \<and>
   plexMatch rt title None m = (js_toLowerCase rt (item_title m) = js_toLowerCase rt title) \<and>
   plexMatch rt title (Some []) m = (js_toLowerCase rt (item_title m) = js_toLowerCase rt title) \<and>
   (checkPlexMovie api w db now later c serverId title year = (r, c1, calls) \<and>
    freshEntry (plexCache c (plexCacheKey ''movie'' serverId title year)) now = None \<and>
    pr_exists r \<longrightarrow>
      (\<exists>found. pr_match r = Some found \<and> plexMatch (jsRuntime api) title year found)) \<and>
   (checkPlexTv api w db now later c serverId title year = (r, c1, calls) \<and>
    freshEntry (plexCache c (plexCacheKey ''tv'' serverId title year)) now = None \<and>
    pr_exists r \<longrightarrow>
      (\<exists>found. pr_match r = Some found \<and> plexMatch (jsRuntime api) title year found))"
  using plexMatch_year [of y rt title m] plexMatch_no_year [of rt title m]
    checkPlex_hit [of "''movie''" "''movie''" 1 api w db now later c serverId title year r c1 calls]
    checkPlex_hit [of "''tv''" "''show''" 2 api w db now later c serverId title year r c1 calls]
  unfolding checkPlexMovie_def checkPlexTv_def
  by blast

theorem plex_match_year_required_witness:
  "plexMatch refRuntime ''The Matrix'' (Some ''1999'') filedRecord \<and>
   pr_exists (fst cinemaPlexRun) \<and>
   plexMatch (jsRuntime simApi) ''The Matrix'' (Some ''1999'') (the (pr_match (fst cinemaPlexRun))) \<and>
   pr_exists (fst cinemaTvRun) \<and>
   plexMatch (jsRuntime simApi) ''Game of Thrones'' (Some ''2011'') (the (pr_match (fst cinemaTvRun)))"
proof -
  have y: "''1999'' \<noteq> []" by simp
  have t: "js_toLowerCase refRuntime (item_title filedRecord) = js_toLowerCase refRuntime ''The Matrix''"
    by code_simp
  have p: "js_parseInt refRuntime ''1999'' = Some (Finite 1999) \<and>
      item_year filedRecord = Some (Finite 1999)"
    by code_simp
  have e: "freshEntry (plexCache emptyCache (plexCacheKey ''movie'' ''s1'' ''The Matrix'' (Some ''1999''))) 0 = None"
    by code_simp
  have e2: "freshEntry (plexCache emptyCache (plexCacheKey ''tv'' ''s1'' ''Game of Thrones'' (Some ''2011''))) 0 = None"
    by code_simp
  have x: "pr_exists (fst cinemaPlexRun)" by code_simp
  have x2: "pr_exists (fst cinemaTvRun)" by code_simp
  have run: "checkPlexMovie simApi cinemaWorld homeDb 0 1 emptyCache ''s1'' ''The Matrix'' (Some ''1999'') =
      (fst cinemaPlexRun, fst (snd cinemaPlexRun), snd (snd cinemaPlexRun))"
    by (simp add: cinemaPlexRun_def)
  have run2: "checkPlexTv simApi cinemaWorld homeDb 0 1 emptyCache ''s1'' ''Game of Thrones'' (Some ''2011'') =
      (fst cinemaTvRun, fst (snd cinemaTvRun), snd (snd cinemaTvRun))"
    by (simp add: cinemaTvRun_def)
  from plex_match_year_required [of "''1999''" refRuntime "''The Matrix''" filedRecord simApi
      cinemaWorld homeDb 0 1 emptyCache "''s1''" "Some ''1999''" "fst cinemaPlexRun"
      "fst (snd cinemaPlexRun)" "snd (snd cinemaPlexRun)"] y t p e x run
  have a: "plexMatch refRuntime ''The Matrix'' (Some ''1999'') filedRecord"
    and b: "plexMatch (jsRuntime simApi) ''The Matrix'' (Some ''1999'') (the (pr_match (fst cinemaPlexRun)))"
    by auto
  from plex_match_year_required [of "''2011''" refRuntime "''Game of Thrones''" filedRecord simApi
      cinemaWorld homeDb 0 1 emptyCache "''s1''" "Some ''2011''" "fst cinemaTvRun"
      "fst (snd cinemaTvRun)" "snd (snd cinemaTvRun)"] e2 x2 run2
  have c: "plexMatch (jsRuntime simApi) ''Game of Thrones'' (Some ''2011'') (the (pr_match (fst cinemaTvRun)))"
    by auto
  from a b c x x2 show ?thesis by blast
qed

section \<open>The freshness window of the cache\<close>

lemma freshEntry_iff:
  "freshEntry (Some \<lparr>ce_data = d, ce_timestamp = T\<rparr>) now =
     (if now < T + 5 * 60 * 1000 then Some d else None)"
  by (auto simp: freshEntry_def CACHE_TTL_def)

lemma freshEntry_stale:
  "cached = Some \<lparr>ce_data = d, ce_timestamp = T\<rparr> \<Longrightarrow> T + 5 * 60 * 1000 \<le> now \<Longrightarrow>
     freshEntry cached now = None"
  by (simp add: freshEntry_iff)

lemma freshEntry_dropPlex: "freshEntry (plexCache (dropPlex c k) k) now = None"
  by (simp add: dropPlex_def freshEntry_def)

lemma freshEntry_dropStatus: "freshEntry (statusCache (dropStatus c k) k) now = None"
  by (simp add: dropStatus_def freshEntry_def)

lemma checkPlex_fresh:
  "plexCache c (plexCacheKey kind serverId title year) = Some \<lparr>ce_data = d, ce_timestamp = T\<rparr> \<Longrightarrow>
   now < T + 5 * 60 * 1000 \<Longrightarrow>
   checkPlex kind secType ty api w db now later c serverId title year = (d, c, [])"
  by (simp add: checkPlex_def freshEntry_iff)

lemma checkPlex_absent:
  assumes "freshEntry (plexCache c (plexCacheKey kind serverId title year)) now = None"
    and "freshEntry (plexCache c0 (plexCacheKey kind serverId title year)) now = None"
  shows "asAbsent (checkPlex kind secType ty api w db now later c serverId title year)
           (checkPlex kind secType ty api w db now later c0 serverId title year) c
           (putPlex c (plexCacheKey kind serverId title year)
              (fst (checkPlex kind secType ty api w db now later c serverId title year)) later)"
  using assms
  by (auto simp: checkPlex_def asAbsent_def Let_def
      split: option.splits reply.splits prod.splits scan.splits)

lemma checkPlex_calls:
  assumes "freshEntry (plexCache c (plexCacheKey kind serverId title year)) now = None"
    and "getServer db serverId = Some server"
  shows "\<exists>rest. snd (snd (checkPlex kind secType ty api w db now later c serverId title year)) =
           PlexSections (ps_url server) # rest"
  using assms
  by (auto simp: checkPlex_def Let_def
      split: option.splits reply.splits prod.splits scan.splits)

lemma checkPlex_unregistered:
  assumes "freshEntry (plexCache c (plexCacheKey kind serverId title year)) now = None"
    and "getServer db serverId = None"
  shows "checkPlex kind secType ty api w db now later c serverId title year = (notPresent, c, [])"
  using assms by (simp add: checkPlex_def)

lemma checkPlex_window:
  assumes "plexCache c (plexCacheKey kind serverId title year) = Some \<lparr>ce_data = d, ce_timestamp = T\<rparr>"
  shows "(now < T + 5 * 60 * 1000 \<longrightarrow>
           checkPlex kind secType ty api w db now later c serverId title year = (d, c, [])) \<and>
         (T + 5 * 60 * 1000 \<le> now \<longrightarrow>
            asAbsent (checkPlex kind secType ty api w db now later c serverId title year)
              (checkPlex kind secType ty api w db now later
                 (dropPlex c (plexCacheKey kind serverId title year)) serverId title year) c
              (putPlex c (plexCacheKey kind serverId title year)
                 (fst (checkPlex kind secType ty api w db now later c serverId title year)) later) \<and>
            (getServer db serverId = Some server \<longrightarrow>
               (\<exists>rest. snd (snd (checkPlex kind secType ty api w db now later c serverId title year)) =
                         PlexSections (ps_url server) # rest)) \<and>
            (getServer db serverId = None \<longrightarrow>
               checkPlex kind secType ty api w db now later c serverId title year =
                 (notPresent, c, [])))"
  using checkPlex_fresh [OF assms, of now secType ty api w db later]
    freshEntry_stale [OF assms, of now]
    checkPlex_absent [of c kind serverId title year now
      "dropPlex c (plexCacheKey kind serverId title year)" secType ty api w db later]
    freshEntry_dropPlex [of c "plexCacheKey kind serverId title year" now]
    checkPlex_calls [of c kind serverId title year now db server secType ty api w later]
    checkPlex_unregistered [of c kind serverId title year now db secType ty api w later]
  by blast

lemma checkRadarr_fresh:
  "statusCache c (radarrCacheKey serverId tmdbId) = Some \<lparr>ce_data = d, ce_timestamp = T\<rparr> \<Longrightarrow>
   now < T + 5 * 60 * 1000 \<Longrightarrow>
   checkRadarrMovie api w db now later c serverId tmdbId = (d, c, [])"
  by (simp add: checkRadarrMovie_def freshEntry_iff)

lemma checkRadarr_absent:
  assumes "freshEntry (statusCache c (radarrCacheKey serverId tmdbId)) now = None"
    and "freshEntry (statusCache c0 (radarrCacheKey serverId tmdbId)) now = None"
  shows "asAbsent (checkRadarrMovie api w db now later c serverId tmdbId)
           (checkRadarrMovie api w db now later c0 serverId tmdbId) c
           (putStatus c (radarrCacheKey serverId tmdbId)
              (fst (checkRadarrMovie api w db now later c serverId tmdbId)) later)"
  using assms
  by (auto simp: checkRadarrMovie_def asAbsent_def Let_def
      split: option.splits reply.splits prod.splits)

lemma checkRadarr_calls:
  assumes "freshEntry (statusCache c (radarrCacheKey serverId tmdbId)) now = None"
    and "getServer db serverId = Some server" and "radarrConfigured server"
  shows "\<exists>rest. snd (snd (checkRadarrMovie api w db now later c serverId tmdbId)) =
           RadarrMovies # rest"
  using assms
  by (auto simp: checkRadarrMovie_def Let_def
      split: option.splits reply.splits prod.splits)

lemma checkRadarr_unconfigured:
  assumes "freshEntry (statusCache c (radarrCacheKey serverId tmdbId)) now = None"
    and "getServer db serverId = None \<or>
         (getServer db serverId = Some server \<and> \<not> radarrConfigured server)"
  shows "checkRadarrMovie api w db now later c serverId tmdbId = (None, c, [])"
  using assms by (auto simp: checkRadarrMovie_def)

lemma checkRadarr_window:
  assumes "statusCache c (radarrCacheKey serverId tmdbId) = Some \<lparr>ce_data = d, ce_timestamp = T\<rparr>"
  shows "(now < T + 5 * 60 * 1000 \<longrightarrow>
           checkRadarrMovie api w db now later c serverId tmdbId = (d, c, [])) \<and>
         (T + 5 * 60 * 1000 \<le> now \<longrightarrow>
            asAbsent (checkRadarrMovie api w db now later c serverId tmdbId)
              (checkRadarrMovie api w db now later
                 (dropStatus c (radarrCacheKey serverId tmdbId)) serverId tmdbId) c
              (putStatus c (radarrCacheKey serverId tmdbId)
                 (fst (checkRadarrMovie api w db now later c serverId tmdbId)) later) \<and>
            (getServer db serverId = Some server \<and> radarrConfigured server \<longrightarrow>
               (\<exists>rest. snd (snd (checkRadarrMovie api w db now later c serverId tmdbId)) =
                         RadarrMovies # rest)) \<and>
            (getServer db serverId = None \<or>
             (getServer db serverId = Some server \<and> \<not> radarrConfigured server) \<longrightarrow>
               checkRadarrMovie api w db now later c serverId tmdbId = (None, c, [])))"
  using checkRadarr_fresh [OF assms, of now api w db later]
    freshEntry_stale [OF assms, of now]
    checkRadarr_absent [of c serverId tmdbId now
      "dropStatus c (radarrCacheKey serverId tmdbId)" api w db later]
    freshEntry_dropStatus [of c "radarrCacheKey serverId tmdbId" now]
    checkRadarr_calls [of c serverId tmdbId now db server api w later]
    checkRadarr_unconfigured [of c serverId tmdbId now db server api w later]
  by blast

lemma checkSonarr_fresh:
  "statusCache c (sonarrCacheKey serverId tmdbId) = Some \<lparr>ce_data = d, ce_timestamp = T\<rparr> \<Longrightarrow>
   now < T + 5 * 60 * 1000 \<Longrightarrow>
   checkSonarrSeries api w db now later c serverId tmdbId = (d, c, [])"
  by (simp add: checkSonarrSeries_def freshEntry_iff)

lemma checkSonarr_absent:
  assumes "freshEntry (statusCache c (sonarrCacheKey serverId tmdbId)) now = None"
    and "freshEntry (statusCache c0 (sonarrCacheKey serverId tmdbId)) now = None"
  shows "asAbsent (checkSonarrSeries api w db now later c serverId tmdbId)
           (checkSonarrSeries api w db now later c0 serverId tmdbId) c
           (putStatus c (sonarrCacheKey serverId tmdbId)
              (fst (checkSonarrSeries api w db now later c serverId tmdbId)) later)"
  using assms
  by (auto simp: checkSonarrSeries_def asAbsent_def Let_def
      split: option.splits reply.splits prod.splits)

lemma checkSonarr_calls:
  assumes "freshEntry (statusCache c (sonarrCacheKey serverId tmdbId)) now = None"
    and "getServer db serverId = Some server" and "sonarrConfigured server"
  shows "\<exists>rest. snd (snd (checkSonarrSeries api w db now later c serverId tmdbId)) =
           SonarrSeries # rest"
  using assms
  by (auto simp: checkSonarrSeries_def Let_def
      split: option.splits reply.splits prod.splits)

lemma checkSonarr_unconfigured:
  assumes "freshEntry (statusCache c (sonarrCacheKey serverId tmdbId)) now = None"
    and "getServer db serverId = None \<or>
         (getServer db serverId = Some server \<and> \<not> sonarrConfigured server)"
  shows "checkSonarrSeries api w db now later c serverId tmdbId = (None, c, [])"
  using assms by (auto simp: checkSonarrSeries_def)

lemma checkSonarr_window:
  assumes "statusCache c (sonarrCacheKey serverId tmdbId) = Some \<lparr>ce_data = d, ce_timestamp = T\<rparr>"
  shows "(now < T + 5 * 60 * 1000 \<longrightarrow>
           checkSonarrSeries api w db now later c serverId tmdbId = (d, c, [])) \<and>
         (T + 5 * 60 * 1000 \<le> now \<longrightarrow>
            asAbsent (checkSonarrSeries api w db now later c serverId tmdbId)
              (checkSonarrSeries api w db now later
                 (dropStatus c (sonarrCacheKey serverId tmdbId)) serverId tmdbId) c
              (putStatus c (sonarrCacheKey serverId tmdbId)
                 (fst (checkSonarrSeries api w db now later c serverId tmdbId)) later) \<and>
            (getServer db serverId = Some server \<and> sonarrConfigured server \<longrightarrow>
               (\<exists>rest. snd (snd (checkSonarrSeries api w db now later c serverId tmdbId)) =
                         SonarrSeries # rest)) \<and>
            (getServer db serverId = None \<or>
             (getServer db serverId = Some server \<and> \<not> sonarrConfigured server) \<longrightarrow>
               checkSonarrSeries api w db now later c serverId tmdbId = (None, c, [])))"
  using checkSonarr_fresh [OF assms, of now api w db later]
    freshEntry_stale [OF assms, of now]
    checkSonarr_absent [of c serverId tmdbId now
      "dropStatus c (sonarrCacheKey serverId tmdbId)" api w db later]
    freshEntry_dropStatus [of c "sonarrCacheKey serverId tmdbId" now]
    checkSonarr_calls [of c serverId tmdbId now db server api w later]
    checkSonarr_unconfigured [of c serverId tmdbId now db server api w later]
  by blast

text \<open>
  Claim C5 has every read at or after \<open>T\<close> plus five minutes trigger a fresh remote
  call. The checkers look the server up after the freshness test and return at
  once when it is registered no more, or when its manager is configured no more:
  the entries below were stored at time 1000, the reads at time 302000 find them
  stale, and no remote call is made.
\<close>

theorem stale_read_counterexample:
  "plexCache staleCache (plexCacheKey ''movie'' ''s9'' ''The Matrix'' (Some ''1999'')) =
     Some \<lparr>ce_data = \<lparr>pr_exists = True, pr_match = Some filedRecord\<rparr>, ce_timestamp = 1000\<rparr> \<and>
   statusCache staleCache (radarrCacheKey ''s2'' 603) =
     Some \<lparr>ce_data = Some ''queued'', ce_timestamp = 1000\<rparr> \<and>
   (1000 :: int) + 5 * 60 * 1000 \<le> 302000 \<and>
   fst (checkPlexMovie simApi homeWorld homeDb 302000 302001 staleCache ''s9'' ''The Matrix''
          (Some ''1999'')) = notPresent \<and>
   snd (snd (checkPlexMovie simApi homeWorld homeDb 302000 302001 staleCache ''s9'' ''The Matrix''
          (Some ''1999''))) = [] \<and>
   fst (checkRadarrMovie simApi homeWorld homeDb 302000 302001 staleCache ''s2'' 603) = None \<and>
   snd (snd (checkRadarrMovie simApi homeWorld homeDb 302000 302001 staleCache ''s2'' 603)) = []"
  by code_simp

text \<open>
  Claim C5, amended. For every key of the four checkers, a value stored at time \<open>T\<close>
  is returned by every read before \<open>T\<close> plus five minutes, with the cache untouched
  and no remote call. A read at or after that time treats the entry as absent: it
  gives the result and makes the calls of a check on the cache without the entry,
  and the stale entry is not evicted, the cache is left as it was or the key is
  overwritten with the new result. Such a read starts with a fresh remote call
  when the server is still registered and, for a manager checker, its manager is
  still configured; otherwise it answers not present, or null, with no remote
  call and the cache as it was.
\<close>

theorem cache_freshness_window:
  "(plexCache c (plexCacheKey ''movie'' serverId title year) =
      Some \<lparr>ce_data = d, ce_timestamp = T\<rparr> \<longrightarrow>
      (now < T + 5 * 60 * 1000 \<longrightarrow>
         checkPlexMovie api w db now later c serverId title year = (d, c, [])) \<and>
      (T + 5 * 60 * 1000 \<le> now \<longrightarrow>
         asAbsent (checkPlexMovie api w db now later c serverId title year)
           (checkPlexMovie api w db now later
              (dropPlex c (plexCacheKey ''movie'' serverId title year)) serverId title year) c
           (putPlex c (plexCacheKey ''movie'' serverId title year)
              (fst (checkPlexMovie api w db now later c serverId title year)) later) \<and>
         (getServer db serverId = Some server \<longrightarrow>
            (\<exists>rest. snd (snd (checkPlexMovie api w db now later c serverId title year)) =
                      PlexSections (ps_url server) # rest)) \<and>
         (getServer db serverId = None \<longrightarrow>
            checkPlexMovie api w db now later c serverId title year = (notPresent, c, [])))) \<and>
   (plexCache c (plexCacheKey ''tv'' serverId title year) =
      Some \<lparr>ce_data = d, ce_timestamp = T\<rparr> \<longrightarrow>
      (now < T + 5 * 60 * 1000 \<longrightarrow>
         checkPlexTv api w db now later c serverId title year = (d, c, [])) \<and>
      (T + 5 * 60 * 1000 \<le> now \<longrightarrow>
         asAbsent (checkPlexTv api w db now later c serverId title year)
           (checkPlexTv api w db now later
              (dropPlex c (plexCacheKey ''tv'' serverId title year)) serverId title year) c
           (putPlex c (plexCacheKey ''tv'' serverId title year)
              (fst (checkPlexTv api w db now later c serverId title year)) later) \<and>
         (getServer db serverId = Some server \<longrightarrow>
            (\<exists>rest. snd (snd (checkPlexTv api w db now later c serverId title year)) =
                      PlexSections (ps_url server) # rest)) \<and>
         (getServer db serverId = None \<longrightarrow>
            checkPlexTv api w db now later c serverId title year = (notPresent, c, [])))) \<and>
   (statusCache c (radarrCacheKey serverId tmdbId) =
      Some \<lparr>ce_data = st, ce_timestamp = T\<rparr> \<longrightarrow>
      (now < T + 5 * 60 * 1000 \<longrightarrow>
         checkRadarrMovie api w db now later c serverId tmdbId = (st, c, [])) \<and>
      (T + 5 * 60 * 1000 \<le> now \<longrightarrow>
         asAbsent (checkRadarrMovie api w db now later c serverId tmdbId)
           (checkRadarrMovie api w db now later
              (dropStatus c (radarrCacheKey serverId tmdbId)) serverId tmdbId) c
           (putStatus c (radarrCacheKey serverId tmdbId)
              (fst (checkRadarrMovie api w db now later c serverId tmdbId)) later) \<and>
         (getServer db serverId = Some server \<and> radarrConfigured server \<longrightarrow>
            (\<exists>rest. snd (snd (checkRadarrMovie api w db now later c serverId tmdbId)) =
                      RadarrMovies # rest)) \<and>
         (getServer db serverId = None \<or>
          (getServer db serverId = Some server \<and> \<not> radarrConfigured server) \<longrightarrow>
            checkRadarrMovie api w db now later c serverId tmdbId = (None, c, [])))) \<and>
   (statusCache c (sonarrCacheKey serverId tmdbId) =
      Some \<lparr>ce_data = st, ce_timestamp = T\<rparr> \<longrightarrow>
      (now < T + 5 * 60 * 1000 \<longrightarrow>
         checkSonarrSeries api w db now later c serverId tmdbId = (st, c, [])) \<and>
      (T + 5 * 60 * 1000 \<le> now \<longrightarrow>
         asAbsent (checkSonarrSeries api w db now later c serverId tmdbId)
           (checkSonarrSeries api w db now later
              (dropStatus c (sonarrCacheKey serverId tmdbId)) serverId tmdbId) c
           (putStatus c (sonarrCacheKey serverId tmdbId)
              (fst (checkSonarrSeries api w db now later c serverId tmdbId)) later) \<and>
         (getServer db serverId = Some server \<and> sonarrConfigured server \<longrightarrow>
            (\<exists>rest. snd (snd (checkSonarrSeries api w db now later c serverId tmdbId)) =
                      SonarrSeries # rest)) \<and>
         (getServer db serverId = None \<or>
          (getServer db serverId = Some server \<and> \<not> sonarrConfigured server) \<longrightarrow>
            checkSonarrSeries api w db now later c serverId tmdbId = (None, c, []))))"
proof -
  note a = checkPlex_window [of c "''movie''" serverId title year d T now "''movie''" 1 api w db
      later server, folded checkPlexMovie_def]
  note b = checkPlex_window [of c "''tv''" serverId title year d T now "''show''" 2 api w db
      later server, folded checkPlexTv_def]
  note r = checkRadarr_window [of c serverId tmdbId st T now api w db later server]
  note t = checkSonarr_window [of c serverId tmdbId st T now api w db later server]
  from a b r t show ?thesis
    by blast
qed

theorem cache_freshness_window_witness:
  "checkPlexMovie simApi homeWorld homeDb 300000 300001 warmCache ''s1'' ''The Matrix'' (Some ''1999'') =
     (\<lparr>pr_exists = True, pr_match = Some filedRecord\<rparr>, warmCache, []) \<and>
   fst (checkPlexMovie simApi homeWorld homeDb 302000 302001 warmCache ''s1'' ''The Matrix''
          (Some ''1999'')) = notPresent \<and>
   snd (snd (checkPlexMovie simApi homeWorld homeDb 302000 302001 warmCache ''s1'' ''The Matrix''
          (Some ''1999''))) = [PlexSections ''http://plex'', PlexAll ''http://plex'' ''1''] \<and>
   checkRadarrMovie simApi homeWorld homeDb 300000 300001 warmCache ''s1'' 603 =
     (Some ''queued'', warmCache, []) \<and>
   fst (checkRadarrMovie simApi homeWorld homeDb 302000 302001 warmCache ''s1'' 603) =
     Some ''missing'' \<and>
   snd (snd (checkRadarrMovie simApi homeWorld homeDb 302000 302001 warmCache ''s1'' 603)) =
     [RadarrMovies, RadarrQueue] \<and>
   checkPlexMovie simApi homeWorld homeDb 302000 302001 staleCache ''s9'' ''The Matrix''
     (Some ''1999'') = (notPresent, staleCache, []) \<and>
   checkRadarrMovie simApi homeWorld homeDb 302000 302001 staleCache ''s2'' 603 =
     (None, staleCache, [])"
proof -
  have h1: "plexCache warmCache (plexCacheKey ''movie'' ''s1'' ''The Matrix'' (Some ''1999'')) =
      Some \<lparr>ce_data = \<lparr>pr_exists = True, pr_match = Some filedRecord\<rparr>, ce_timestamp = 1000\<rparr>"
    by code_simp
  have h2: "statusCache warmCache (radarrCacheKey ''s1'' 603) =
      Some \<lparr>ce_data = Some ''queued'', ce_timestamp = 1000\<rparr>"
    by code_simp
  have h3: "plexCache staleCache (plexCacheKey ''movie'' ''s9'' ''The Matrix'' (Some ''1999'')) =
      Some \<lparr>ce_data = \<lparr>pr_exists = True, pr_match = Some filedRecord\<rparr>, ce_timestamp = 1000\<rparr>"
    by code_simp
  have h4: "statusCache staleCache (radarrCacheKey ''s2'' 603) =
      Some \<lparr>ce_data = Some ''queued'', ce_timestamp = 1000\<rparr>"
    by code_simp
  have g: "getServer homeDb ''s9'' = None" "getServer homeDb ''s2'' = Some serverTwo"
    "\<not> radarrConfigured serverTwo"
    by code_simp+
  have t1: "(300000::int) < 1000 + 5 * 60 * 1000" by simp
  have t2: "(1000::int) + 5 * 60 * 1000 \<le> 302000" by simp
  have v1: "fst (checkPlexMovie simApi homeWorld homeDb 302000 302001
        (dropPlex warmCache (plexCacheKey ''movie'' ''s1'' ''The Matrix'' (Some ''1999'')))
        ''s1'' ''The Matrix'' (Some ''1999'')) = notPresent"
    by code_simp
  have v2: "snd (snd (checkPlexMovie simApi homeWorld homeDb 302000 302001
        (dropPlex warmCache (plexCacheKey ''movie'' ''s1'' ''The Matrix'' (Some ''1999'')))
        ''s1'' ''The Matrix'' (Some ''1999''))) =
        [PlexSections ''http://plex'', PlexAll ''http://plex'' ''1'']"
    by code_simp
  have v3: "fst (checkRadarrMovie simApi homeWorld homeDb 302000 302001
        (dropStatus warmCache (radarrCacheKey ''s1'' 603)) ''s1'' 603) = Some ''missing''"
    by code_simp
  have v4: "snd (snd (checkRadarrMovie simApi homeWorld homeDb 302000 302001
        (dropStatus warmCache (radarrCacheKey ''s1'' 603)) ''s1'' 603)) =
        [RadarrMovies, RadarrQueue]"
    by code_simp
  from cache_freshness_window [of warmCache "''s1''" "''The Matrix''" "Some ''1999''"
      "\<lparr>pr_exists = True, pr_match = Some filedRecord\<rparr>" 1000 300000 simApi homeWorld homeDb
      300001 serverOne 603 "Some ''queued''"] h1 h2 t1
  have fresh: "checkPlexMovie simApi homeWorld homeDb 300000 300001 warmCache ''s1'' ''The Matrix''
        (Some ''1999'') = (\<lparr>pr_exists = True, pr_match = Some filedRecord\<rparr>, warmCache, []) \<and>
      checkRadarrMovie simApi homeWorld homeDb 300000 300001 warmCache ''s1'' 603 =
        (Some ''queued'', warmCache, [])"
    by blast
  from cache_freshness_window [of warmCache "''s1''" "''The Matrix''" "Some ''1999''"
      "\<lparr>pr_exists = True, pr_match = Some filedRecord\<rparr>" 1000 302000 simApi homeWorld homeDb
      302001 serverOne 603 "Some ''queued''"] h1 h2 t2
  have stale: "asAbsent
       (checkPlexMovie simApi homeWorld homeDb 302000 302001 warmCache ''s1''
          ''The Matrix'' (Some ''1999''))
       (checkPlexMovie simApi homeWorld homeDb 302000 302001
          (dropPlex warmCache (plexCacheKey ''movie'' ''s1'' ''The Matrix'' (Some ''1999'')))
          ''s1'' ''The Matrix'' (Some ''1999'')) warmCache
       (putPlex warmCache (plexCacheKey ''movie'' ''s1'' ''The Matrix'' (Some ''1999''))
          (fst (checkPlexMovie simApi homeWorld homeDb 302000 302001 warmCache ''s1''
                  ''The Matrix'' (Some ''1999''))) 302001) \<and>
     asAbsent
       (checkRadarrMovie simApi homeWorld homeDb 302000 302001 warmCache ''s1'' 603)
       (checkRadarrMovie simApi homeWorld homeDb 302000 302001
          (dropStatus warmCache (radarrCacheKey ''s1'' 603)) ''s1'' 603) warmCache
       (putStatus warmCache (radarrCacheKey ''s1'' 603)
          (fst (checkRadarrMovie simApi homeWorld homeDb 302000 302001 warmCache ''s1'' 603))
          302001)"
    by blast
  from cache_freshness_window [of staleCache "''s9''" "''The Matrix''" "Some ''1999''"
      "\<lparr>pr_exists = True, pr_match = Some filedRecord\<rparr>" 1000 302000 simApi homeWorld homeDb
      302001 serverOne 603 "Some ''queued''"] h3 t2 g
  have gone: "checkPlexMovie simApi homeWorld homeDb 302000 302001 staleCache ''s9'' ''The Matrix''
     (Some ''1999'') = (notPresent, staleCache, [])"
    by blast
  from cache_freshness_window [of staleCache "''s2''" "''The Matrix''" "Some ''1999''"
      "\<lparr>pr_exists = True, pr_match = Some filedRecord\<rparr>" 1000 302000 simApi homeWorld homeDb
      302001 serverTwo 603 "Some ''queued''"] h4 t2 g
  have unset: "checkRadarrMovie simApi homeWorld homeDb 302000 302001 staleCache ''s2'' 603 =
     (None, staleCache, [])"
    by blast
  from fresh stale gone unset v1 v2 v3 v4 show ?thesis
    by (simp add: asAbsent_def)
qed

section \<open>Remote errors in the checkers\<close>

lemma scanSections_threw:
  "fst (scanSections api w server ty title year secs) = ScanThrew \<Longrightarrow>
     \<exists>sec\<in>set secs. \<exists>e. plex_all api w (ps_url server) (ps_token server) sec ty title = Rejected e"
  by (induction secs) (auto split: reply.splits option.splits prod.splits)

lemma classifyMovie_None:
  "classifyMovie api w server movie = None \<Longrightarrow>
     \<exists>e. radarr_queue api w (ps_radarr_url server) (ps_radarr_api_key server) = Rejected e"
  by (auto simp: classifyMovie_def Let_def split: if_splits reply.splits)










section \<open>The series manager checker\<close>

lemma checkSonarr_null:
  "freshEntry (statusCache c (sonarrCacheKey serverId tmdbId)) now = None \<Longrightarrow>
   fst (checkSonarrSeries api w db now later c serverId tmdbId) = None"
  by (auto simp: checkSonarrSeries_def Let_def split: option.splits reply.splits)

text \<open>
  Claim C3. The series checker is to classify a series found in the manager's list.
  On a server whose series manager is configured and lists the series with all its
  episodes, the checker fetches the list, stores null and returns null; by
  \<open>checkSonarr_null\<close> it returns null whenever the cache has no fresh entry.
\<close>

theorem sonarr_checker_returns_null:
  "sonarrConfigured serverOne \<and>
   sonarr_series_list simApi homeWorld (ps_sonarr_url serverOne) (ps_sonarr_api_key serverOne) =
     Resolved [\<lparr>ss_tvdbId = Some 121361, ss_title = ''Game of Thrones'',
                ss_percentOfEpisodes = Some 100\<rparr>] \<and>
   checkSonarrSeries simApi homeWorld homeDb 0 1 emptyCache ''s1'' 1399 =
     (None, putStatus emptyCache (sonarrCacheKey ''s1'' 1399) None 1, [SonarrSeries])"
  by (simp add: checkSonarrSeries_def sonarrConfigured_def serverOne_def truthy_def simApi_def
      answer_def homeWorld_def freshEntry_def emptyCache_def getServer_def homeDb_def Let_def)

section \<open>Listing requests\<close>

lemma viewOf_cong:
  "users db1 = users db2 \<Longrightarrow> plex_servers db1 = plex_servers db2 \<Longrightarrow> viewOf db1 = viewOf db2"
  by (rule ext) (simp add: viewOf_def usernameOf_def getServer_def split: option.splits)

lemma listCondition_owned:
  "u_role usr \<noteq> ''admin'' \<Longrightarrow>
     filter (listCondition usr q) xs =
       filter (listCondition usr q) (filter (ownedBy (u_id usr)) xs)"
  by (induction xs) (auto simp: listCondition_def ownedBy_def)

lemma list_same_for_owner:
  assumes "u_role usr \<noteq> ''admin''"
    and "filter (ownedBy (u_id usr)) (content_requests db1) =
         filter (ownedBy (u_id usr)) (content_requests db2)"
    and "users db1 = users db2" and "plex_servers db1 = plex_servers db2"
  shows "listRequests db1 usr q = listRequests db2 usr q"
proof -
  have "filter (listCondition usr q) (content_requests db1) =
        filter (listCondition usr q) (content_requests db2)"
    using listCondition_owned [OF assms(1), of q "content_requests db1"]
      listCondition_owned [OF assms(1), of q "content_requests db2"] assms(2)
    by simp
  then show ?thesis
    using viewOf_cong [OF assms(3) assms(4)] by (simp add: listRequests_def)
qed

lemma list_rows_user:
  "u_role usr \<noteq> ''admin'' \<Longrightarrow>
     mset (listRequests db usr noFilter) =
       mset (map (viewOf db) (filter (ownedBy (u_id usr)) (content_requests db)))"
  by (simp add: listRequests_def noFilter_def listCondition_def truthy_def ownedBy_def)

lemma list_rows_admin:
  "u_role usr = ''admin'' \<Longrightarrow>
     mset (listRequests db usr noFilter) = mset (map (viewOf db) (content_requests db))"
  by (simp add: listRequests_def noFilter_def listCondition_def truthy_def)

text \<open>
  Claim C9. For a user who is not an administrator, two database states with the
  same users and servers and the same records owned by that user give the same
  listing, whatever the other users' records are and whatever filters are asked
  for. Without filters the listing has exactly the records the user owns, and an
  administrator's listing has every record.
\<close>

theorem request_list_noninterference:
  "(u_role usr \<noteq> ''admin'' \<and>
    filter (ownedBy (u_id usr)) (content_requests db1) =
      filter (ownedBy (u_id usr)) (content_requests db2) \<and>
    users db1 = users db2 \<and> plex_servers db1 = plex_servers db2 \<longrightarrow>
      listRequests db1 usr q = listRequests db2 usr q) \<and>
   (u_role usr \<noteq> ''admin'' \<longrightarrow>
      mset (listRequests db usr noFilter) =
        mset (map (viewOf db) (filter (ownedBy (u_id usr)) (content_requests db)))) \<and>
   (u_role usr = ''admin'' \<longrightarrow>
      mset (listRequests db usr noFilter) = mset (map (viewOf db) (content_requests db)))"
  using list_same_for_owner [of usr db1 db2 q] list_rows_user [of usr db] list_rows_admin [of usr db]
  by blast

theorem request_list_noninterference_witness:
  "listRequests homeDb alice noFilter = listRequests busyDb alice noFilter \<and>
   mset (listRequests busyDb alice noFilter) = {#viewOf busyDb heatRequest#} \<and>
   mset (listRequests busyDb adminUser noFilter) =
     {#viewOf busyDb bobRequest, viewOf busyDb heatRequest#}"
proof -
  have a: "u_role alice \<noteq> ''admin''" "u_role adminUser = ''admin''"
    by (simp_all add: alice_def adminUser_def)
  have f: "filter (ownedBy (u_id alice)) (content_requests homeDb) =
           filter (ownedBy (u_id alice)) (content_requests busyDb)"
    by (simp add: ownedBy_def alice_def homeDb_def busyDb_def heatRequest_def bobRequest_def)
  have t: "users homeDb = users busyDb" "plex_servers homeDb = plex_servers busyDb"
    by (simp_all add: busyDb_def)
  have o: "filter (ownedBy (u_id alice)) (content_requests busyDb) = [heatRequest]"
    by (simp add: ownedBy_def alice_def busyDb_def heatRequest_def bobRequest_def)
  have all: "content_requests busyDb = [bobRequest, heatRequest]"
    by (simp add: busyDb_def)
  from request_list_noninterference [of alice homeDb busyDb noFilter busyDb] a f t o
  have one: "listRequests homeDb alice noFilter = listRequests busyDb alice noFilter \<and>
     mset (listRequests busyDb alice noFilter) = {#viewOf busyDb heatRequest#}"
    by simp
  from request_list_noninterference [of adminUser homeDb busyDb noFilter busyDb] a all
  have two: "mset (listRequests busyDb adminUser noFilter) =
     {#viewOf busyDb bobRequest, viewOf busyDb heatRequest#}"
    by simp
  from one two show ?thesis by blast
qed

section \<open>Creating a request\<close>







lemma getServer_id: "getServer db sid = Some server \<Longrightarrow> ps_id server = sid"
  by (auto simp: getServer_def find_Some_iff)











section \<open>Approving a request\<close>

lemma find_stamp:
  "find (\<lambda>r. cr_id r = rid) xs = Some request \<Longrightarrow>
   find (\<lambda>r. cr_id r = rid)
     (map (\<lambda>r. if cr_id r = rid
                then r\<lparr>cr_status := st, cr_processed_at := pa, cr_processed_by := pb,
                       cr_notes := nt\<rparr>
                else r) xs) =
     Some (request\<lparr>cr_status := st, cr_processed_at := pa, cr_processed_by := pb, cr_notes := nt\<rparr>)"
  by (induction xs) (auto split: if_splits)

lemma find_id: "find (\<lambda>r. cr_id r = rid) xs = Some request \<Longrightarrow> cr_id request = rid"
  by (auto simp: find_Some_iff)

lemma approve_ok:
  assumes a: "u_role usr = ''admin''"
    and f: "find (\<lambda>r. cr_id r = requestId) (content_requests db) = Some request"
    and p: "cr_status request = ''pending''"
    and t: "\<not> trackedItem db (cr_tmdb_id request) (cr_content_type request) (cr_server_id request)"
    and u: "\<forall>i\<in>set (rss_items db). ri_id i \<noteq> uuid"
  shows "res_code (fst (approveRequest api w db usr ip uuid now requestId body)) = 200 \<and>
         res_error (fst (approveRequest api w db usr ip uuid now requestId body)) = None \<and>
         res_warning (fst (approveRequest api w db usr ip uuid now requestId body)) =
           (if ar_success (fst (approvalPush api w db request)) then None
            else Some (managerName (cr_content_type request) @ '' integration failed: '' @
                       showOpt (ar_error (fst (approvalPush api w db request))))) \<and>
         find (\<lambda>r. cr_id r = requestId)
           (content_requests (fst (snd (approveRequest api w db usr ip uuid now requestId body)))) =
           Some (approvedRecord usr now request body) \<and>
         rss_items (fst (snd (approveRequest api w db usr ip uuid now requestId body))) =
           rss_items db @ [approvedItem usr uuid now request body]"
proof -
  obtain arr w1 where push: "approvalPush api w db request = (arr, w1)"
    by (cases "approvalPush api w db request")
  have ins: "insertRssItem db (approvedItem usr uuid now request body) =
      Some (db\<lparr>rss_items := rss_items db @ [approvedItem usr uuid now request body]\<rparr>)"
    using t u by (auto simp: insertRssItem_def approvedItem_def trackedItem_def find_None_iff)
  have st: "find (\<lambda>r. cr_id r = requestId)
      (content_requests (stampRequest (db\<lparr>rss_items := rss_items db @ [approvedItem usr uuid now request body]\<rparr>)
         requestId ''approved'' now (u_id usr) (ap_notes body))) =
      Some (approvedRecord usr now request body)"
    using find_stamp [OF f] by (simp add: stampRequest_def approvedRecord_def)
  show ?thesis
    using a f p push st find_id [OF f]
    by (simp add: approveRequest_def ins Let_def insertAudit_def stampRequest_def)
qed

text \<open>
  Claim C7 promises a successful answer for every approval of a pending request.
  The handler inserts the tracked item without looking for an existing one, and
  the storage allows one tracked item per server, kind and item: when one exists
  (after a direct add of the same item, say) the insert throws, the answer is the
  error 500 and the record stays pending. Here the manager is unreachable as well.
\<close>

theorem approve_error_counterexample:
  "u_role adminUser = ''admin'' \<and>
   find (\<lambda>r. cr_id r = ''r1'') (content_requests trackedDb) = Some heatRequest \<and>
   cr_status heatRequest = ''pending'' \<and>
   \<not> ar_success (fst (approvalPush simApi offlineWorld trackedDb heatRequest)) \<and>
   approveRequest simApi offlineWorld trackedDb adminUser ''10.0.0.1'' ''u1'' 500 ''r1'' noNotes =
     (errorResponse 500 ''Failed to approve request'', trackedDb, offlineWorld)"
  by code_simp

text \<open>
  Claim C7, amended. For every approval by an administrator of a pending request
  whose item is not yet tracked for the server and the kind, whatever the download
  manager does: the answer has code 200 and no error, the record becomes approved
  with the processor and the time stamped, the tracked item is written, and when
  the push to the manager did not succeed the answer carries the warning naming
  the manager and the failure.
\<close>

theorem approve_tolerates_manager_failure:
  "u_role usr = ''admin'' \<and>
   find (\<lambda>r. cr_id r = requestId) (content_requests db) = Some request \<and>
   cr_status request = ''pending'' \<and>
   \<not> trackedItem db (cr_tmdb_id request) (cr_content_type request) (cr_server_id request) \<and>
   (\<forall>i\<in>set (rss_items db). ri_id i \<noteq> uuid) \<longrightarrow>
     res_code (fst (approveRequest api w db usr ip uuid now requestId body)) = 200 \<and>
     res_error (fst (approveRequest api w db usr ip uuid now requestId body)) = None \<and>
     res_warning (fst (approveRequest api w db usr ip uuid now requestId body)) =
       (if ar_success (fst (approvalPush api w db request)) then None
        else Some (managerName (cr_content_type request) @ '' integration failed: '' @
                   showOpt (ar_error (fst (approvalPush api w db request))))) \<and>
     find (\<lambda>r. cr_id r = requestId)
       (content_requests (fst (snd (approveRequest api w db usr ip uuid now requestId body)))) =
       Some (approvedRecord usr now request body) \<and>
     rss_items (fst (snd (approveRequest api w db usr ip uuid now requestId body))) =
       rss_items db @ [approvedItem usr uuid now request body]"
  using approve_ok [of usr requestId db request uuid api w ip now body]
  by blast

theorem approve_tolerates_manager_failure_witness:
  "res_code (fst (approveRequest simApi offlineWorld homeDb adminUser ''10.0.0.1'' ''u1'' 500 ''r1''
      noNotes)) = 200 \<and>
   res_warning (fst (approveRequest simApi offlineWorld homeDb adminUser ''10.0.0.1'' ''u1'' 500 ''r1''
      noNotes)) = Some ''Radarr integration failed: connect ECONNREFUSED'' \<and>
   find (\<lambda>r. cr_id r = ''r1'')
     (content_requests (fst (snd (approveRequest simApi offlineWorld homeDb adminUser ''10.0.0.1''
        ''u1'' 500 ''r1'' noNotes)))) =
     Some (heatRequest\<lparr>cr_status := ''approved'', cr_processed_at := Some 500,
                       cr_processed_by := Some ''root'', cr_notes := None\<rparr>) \<and>
   rss_items (fst (snd (approveRequest simApi offlineWorld homeDb adminUser ''10.0.0.1'' ''u1'' 500
      ''r1'' noNotes))) = [approvedItem adminUser ''u1'' 500 heatRequest noNotes]"
proof -
  have a: "u_role adminUser = ''admin''" by code_simp
  have f: "find (\<lambda>r. cr_id r = ''r1'') (content_requests homeDb) = Some heatRequest" by code_simp
  have p: "cr_status heatRequest = ''pending''" by code_simp
  have t: "\<not> trackedItem homeDb (cr_tmdb_id heatRequest) (cr_content_type heatRequest)
      (cr_server_id heatRequest)"
    by code_simp
  have u: "\<forall>i\<in>set (rss_items homeDb). ri_id i \<noteq> ''u1''" by code_simp
  have x: "\<not> ar_success (fst (approvalPush simApi offlineWorld homeDb heatRequest))" by code_simp
  have y: "managerName (cr_content_type heatRequest) @ '' integration failed: '' @
      showOpt (ar_error (fst (approvalPush simApi offlineWorld homeDb heatRequest))) =
      ''Radarr integration failed: connect ECONNREFUSED''"
    by code_simp
  have z: "approvedRecord adminUser 500 heatRequest noNotes =
      heatRequest\<lparr>cr_status := ''approved'', cr_processed_at := Some 500,
                   cr_processed_by := Some ''root'', cr_notes := None\<rparr>"
    by code_simp
  have r: "rss_items homeDb = []" by code_simp
  from approve_tolerates_manager_failure [of adminUser "''r1''" homeDb heatRequest "''u1''" simApi
      offlineWorld "''10.0.0.1''" 500 noNotes] a f p t u x y z r
  show ?thesis by simp
qed

section \<open>The executors are idempotent\<close>

lemma catchAdd_exists: "rejectsAsExisting validator e \<Longrightarrow> catchAdd validator e = existsResult"
  by (simp add: catchAdd_def rejectsAsExisting_def existsResult_def)

lemma addToRadarr_exists:
  assumes "radarrConfigured server"
    and "radarr_lookup api w (ps_radarr_url server) (ps_radarr_api_key server) tmdbId =
           Resolved (Some found)"
    and "radarr_rootfolder api w (ps_radarr_url server) (ps_radarr_api_key server) =
           Resolved (Some (rootFolderPath # roots))"
    and "radarr_qualityprofile api w (ps_radarr_url server) (ps_radarr_api_key server) =
           Resolved (Some (qualityProfileId # profiles))"
    and "radarr_add api w (ps_radarr_url server) (ps_radarr_api_key server)
           \<lparr>ab_title = ld_title found, ab_extId = ld_extId found, ab_year = ld_year found,
            ab_qualityProfileId = qualityProfileId, ab_rootFolderPath = rootFolderPath\<rparr> =
           (Rejected e, w1)"
    and "rejectsAsExisting ''MovieExistsValidator'' e"
  shows "addToRadarr api w server tmdbId title = (existsResult, w1)"
  using assms by (simp add: addToRadarr_def addVia_def catchAdd_exists)

lemma addToSonarr_exists:
  assumes "sonarrConfigured server"
    and "sonarr_lookup api w (ps_sonarr_url server) (ps_sonarr_api_key server) title =
           Resolved (Some (found # others))"
    and "sonarr_rootfolder api w (ps_sonarr_url server) (ps_sonarr_api_key server) =
           Resolved (Some (rootFolderPath # roots))"
    and "sonarr_qualityprofile api w (ps_sonarr_url server) (ps_sonarr_api_key server) =
           Resolved (Some (qualityProfileId # profiles))"
    and "sonarr_add api w (ps_sonarr_url server) (ps_sonarr_api_key server)
           \<lparr>ab_title = ld_title found, ab_extId = ld_extId found, ab_year = ld_year found,
            ab_qualityProfileId = qualityProfileId, ab_rootFolderPath = rootFolderPath\<rparr> =
           (Rejected e, w1)"
    and "rejectsAsExisting ''SeriesExistsValidator'' e"
  shows "addToSonarr api w server tmdbId title = (existsResult, w1)"
  using assms by (simp add: addToSonarr_def addVia_def catchAdd_exists)

lemma alreadyListed_rejects: "rejectsAsExisting v (alreadyListed v)"
  by (simp add: rejectsAsExisting_def alreadyListed_def)

lemma offline_not_exists: "catchAdd v offline = arrFailure ''connect ECONNREFUSED''"
  by (simp add: catchAdd_def offline_def)

lemma simApi_sel:
  "radarr_lookup simApi = (\<lambda>w url key tmdbId. answer w (find (\<lambda>d. ld_extId d = tmdbId) (w_catalog w)))"
  "radarr_rootfolder simApi = (\<lambda>w url key. answer w (Some (w_roots w)))"
  "radarr_qualityprofile simApi = (\<lambda>w url key. answer w (Some (w_profiles w)))"
  "radarr_add simApi = (\<lambda>w url key b. simAddMovie w b)"
  "sonarr_lookup simApi = (\<lambda>w url key term. answer w (Some (filter (\<lambda>d. ld_title d = term) (w_catalog w))))"
  "sonarr_rootfolder simApi = (\<lambda>w url key. answer w (Some (w_roots w)))"
  "sonarr_qualityprofile simApi = (\<lambda>w url key. answer w (Some (w_profiles w)))"
  "sonarr_add simApi = (\<lambda>w url key b. simAddSeries w b)"
  by (simp_all add: simApi_def)

text \<open>
  The movie executor on the reference world, in closed form.
\<close>

lemma sim_addToRadarr:
  "addToRadarr simApi w server tmdbId title =
     (if \<not> radarrConfigured server then (arrFailure ''Radarr not configured'', w)
      else if \<not> w_online w then (arrFailure ''connect ECONNREFUSED'', w)
      else case find (\<lambda>d. ld_extId d = tmdbId) (w_catalog w) of
             None \<Rightarrow> (arrFailure ''Movie not found in TMDB'', w)
           | Some found \<Rightarrow>
               (case w_roots w of
                  [] \<Rightarrow> (arrFailure ''No root folder configured in Radarr'', w)
                | rootFolderPath # _ \<Rightarrow>
                    (case w_profiles w of
                       [] \<Rightarrow> (arrFailure ''No quality profile configured in Radarr'', w)
                     | qualityProfileId # _ \<Rightarrow>
                         if find (\<lambda>m. rm_tmdbId m = ld_extId found) (w_movies w) \<noteq> None
                         then (existsResult, w)
                         else (\<lparr>ar_success = True, ar_alreadyExists = False, ar_error = None,
                                ar_id = Some (int (length (w_movies w)) + 1)\<rparr>,
                               w\<lparr>w_movies := w_movies w @
                                    [\<lparr>rm_id = int (length (w_movies w)) + 1,
                                      rm_tmdbId = ld_extId found, rm_hasFile = False,
                                      rm_monitored = True, rm_status = ''released''\<rparr>]\<rparr>))))"
  by (simp add: addToRadarr_def addVia_def simApi_sel answer_def simAddMovie_def
      offline_not_exists catchAdd_exists alreadyListed_rejects
      split: option.splits list.splits)

lemma find_snoc:
  "find P (xs @ [x]) = (case find P xs of None \<Rightarrow> (if P x then Some x else None) | Some y \<Rightarrow> Some y)"
  by (induction xs) auto

lemma sim_addToRadarr_added:
  assumes one: "addToRadarr simApi w server tmdbId title = (r1, w1)"
    and ok: "ar_success r1" and new: "\<not> ar_alreadyExists r1"
  shows "\<exists>found. radarrConfigured server \<and> w_online w \<and>
      find (\<lambda>d. ld_extId d = tmdbId) (w_catalog w) = Some found \<and>
      w_roots w \<noteq> [] \<and> w_profiles w \<noteq> [] \<and>
      find (\<lambda>m. rm_tmdbId m = ld_extId found) (w_movies w) = None \<and>
      w1 = w\<lparr>w_movies := w_movies w @
               [\<lparr>rm_id = int (length (w_movies w)) + 1, rm_tmdbId = ld_extId found,
                 rm_hasFile = False, rm_monitored = True, rm_status = ''released''\<rparr>]\<rparr>"
proof -
  have c: "radarrConfigured server"
    using one ok by (cases "radarrConfigured server") (auto simp: sim_addToRadarr arrFailure_def)
  have o: "w_online w"
    using one ok c by (cases "w_online w") (auto simp: sim_addToRadarr arrFailure_def)
  obtain found where f: "find (\<lambda>d. ld_extId d = tmdbId) (w_catalog w) = Some found"
    using one ok c o
    by (cases "find (\<lambda>d. ld_extId d = tmdbId) (w_catalog w)")
      (auto simp: sim_addToRadarr arrFailure_def)
  have r: "w_roots w \<noteq> []"
    using one ok c o f by (cases "w_roots w") (auto simp: sim_addToRadarr arrFailure_def)
  have p: "w_profiles w \<noteq> []"
    using one ok c o f r
    by (cases "w_roots w"; cases "w_profiles w") (auto simp: sim_addToRadarr arrFailure_def)
  have n: "find (\<lambda>m. rm_tmdbId m = ld_extId found) (w_movies w) = None"
    using one new c o f r p
    by (cases "w_roots w"; cases "w_profiles w";
        cases "find (\<lambda>m. rm_tmdbId m = ld_extId found) (w_movies w)")
      (auto simp: sim_addToRadarr existsResult_def)
  have "w1 = w\<lparr>w_movies := w_movies w @
               [\<lparr>rm_id = int (length (w_movies w)) + 1, rm_tmdbId = ld_extId found,
                 rm_hasFile = False, rm_monitored = True, rm_status = ''released''\<rparr>]\<rparr>"
    using one c o f r p n
    by (cases "w_roots w"; cases "w_profiles w") (auto simp: sim_addToRadarr)
  with c o f r p n show ?thesis by blast
qed

lemma sim_addToRadarr_kept:
  assumes one: "addToRadarr simApi w server tmdbId title = (r1, w1)"
    and no: "\<not> (ar_success r1 \<and> \<not> ar_alreadyExists r1)"
  shows "w1 = w \<and> (ar_success r1 \<longrightarrow> r1 = existsResult)"
proof -
  have "snd (addToRadarr simApi w server tmdbId title) = w \<or>
        (ar_success (fst (addToRadarr simApi w server tmdbId title)) \<and>
         \<not> ar_alreadyExists (fst (addToRadarr simApi w server tmdbId title)))"
    unfolding sim_addToRadarr by (simp split: option.splits list.splits)
  moreover have "ar_alreadyExists (fst (addToRadarr simApi w server tmdbId title)) \<longrightarrow>
        fst (addToRadarr simApi w server tmdbId title) = existsResult"
    unfolding sim_addToRadarr
    by (simp add: arrFailure_def split: option.splits list.splits)
  ultimately show ?thesis using one no by auto
qed

lemma sim_radarr_twice:
  assumes one: "addToRadarr simApi w server tmdbId title = (r1, w1)"
    and two: "addToRadarr simApi w1 server tmdbId title = (r2, w2)"
  shows "w2 = w1 \<and> (ar_success r1 \<longrightarrow> r2 = existsResult) \<and>
         (distinct (map rm_tmdbId (w_movies w)) \<longrightarrow> distinct (map rm_tmdbId (w_movies w2)))"
proof (cases "ar_success r1 \<and> \<not> ar_alreadyExists r1")
  case False
  from sim_addToRadarr_kept [OF one False] have k: "w1 = w" "ar_success r1 \<longrightarrow> r1 = existsResult"
    by simp_all
  with one two have "r2 = r1" "w2 = w" by simp_all
  with k show ?thesis by simp
next
  case True
  with sim_addToRadarr_added [OF one] obtain found where
    c: "radarrConfigured server" "w_online w"
      "find (\<lambda>d. ld_extId d = tmdbId) (w_catalog w) = Some found"
      "w_roots w \<noteq> []" "w_profiles w \<noteq> []"
      "find (\<lambda>m. rm_tmdbId m = ld_extId found) (w_movies w) = None"
    and w1: "w1 = w\<lparr>w_movies := w_movies w @
               [\<lparr>rm_id = int (length (w_movies w)) + 1, rm_tmdbId = ld_extId found,
                 rm_hasFile = False, rm_monitored = True, rm_status = ''released''\<rparr>]\<rparr>"
    by blast
  have "addToRadarr simApi w1 server tmdbId title = (existsResult, w1)"
    using c unfolding sim_addToRadarr w1
    by (cases "w_roots w"; cases "w_profiles w") (simp_all add: find_snoc)
  with two have second: "r2 = existsResult" "w2 = w1" by simp_all
  from c(6) have "ld_extId found \<notin> set (map rm_tmdbId (w_movies w))"
    by (auto simp: find_None_iff)
  with second w1 show ?thesis by simp
qed

text \<open>
  The series executor on the reference world, in closed form.
\<close>

lemma sim_addToSonarr:
  "addToSonarr simApi w server tmdbId title =
     (if \<not> sonarrConfigured server then (arrFailure ''Sonarr not configured'', w)
      else if \<not> w_online w then (arrFailure ''connect ECONNREFUSED'', w)
      else case filter (\<lambda>d. ld_title d = title) (w_catalog w) of
             [] \<Rightarrow> (arrFailure ''Series not found'', w)
           | found # _ \<Rightarrow>
               (case w_roots w of
                  [] \<Rightarrow> (arrFailure ''No root folder configured in Sonarr'', w)
                | rootFolderPath # _ \<Rightarrow>
                    (case w_profiles w of
                       [] \<Rightarrow> (arrFailure ''No quality profile configured in Sonarr'', w)
                     | qualityProfileId # _ \<Rightarrow>
                         if find (\<lambda>x. ss_tvdbId x = Some (ld_extId found)) (w_series w) \<noteq> None
                         then (existsResult, w)
                         else (\<lparr>ar_success = True, ar_alreadyExists = False, ar_error = None,
                                ar_id = Some (int (length (w_series w)) + 1)\<rparr>,
                               w\<lparr>w_series := w_series w @
                                    [\<lparr>ss_tvdbId = Some (ld_extId found),
                                      ss_title = ld_title found,
                                      ss_percentOfEpisodes = Some 0\<rparr>]\<rparr>))))"
  by (simp add: addToSonarr_def addVia_def simApi_sel answer_def simAddSeries_def
      offline_not_exists catchAdd_exists alreadyListed_rejects
      split: option.splits list.splits)

lemma sim_addToSonarr_added:
  assumes one: "addToSonarr simApi w server tmdbId title = (r1, w1)"
    and ok: "ar_success r1" and new: "\<not> ar_alreadyExists r1"
  shows "\<exists>found others. sonarrConfigured server \<and> w_online w \<and>
      filter (\<lambda>d. ld_title d = title) (w_catalog w) = found # others \<and>
      w_roots w \<noteq> [] \<and> w_profiles w \<noteq> [] \<and>
      find (\<lambda>x. ss_tvdbId x = Some (ld_extId found)) (w_series w) = None \<and>
      w1 = w\<lparr>w_series := w_series w @
               [\<lparr>ss_tvdbId = Some (ld_extId found), ss_title = ld_title found,
                 ss_percentOfEpisodes = Some 0\<rparr>]\<rparr>"
proof -
  have c: "sonarrConfigured server"
    using one ok by (cases "sonarrConfigured server") (auto simp: sim_addToSonarr arrFailure_def)
  have o: "w_online w"
    using one ok c by (cases "w_online w") (auto simp: sim_addToSonarr arrFailure_def)
  obtain found others where f: "filter (\<lambda>d. ld_title d = title) (w_catalog w) = found # others"
    using one ok c o
    by (cases "filter (\<lambda>d. ld_title d = title) (w_catalog w)")
      (auto simp: sim_addToSonarr arrFailure_def)
  have r: "w_roots w \<noteq> []"
    using one ok c o f by (cases "w_roots w") (auto simp: sim_addToSonarr arrFailure_def)
  have p: "w_profiles w \<noteq> []"
    using one ok c o f r
    by (cases "w_roots w"; cases "w_profiles w") (auto simp: sim_addToSonarr arrFailure_def)
  have n: "find (\<lambda>x. ss_tvdbId x = Some (ld_extId found)) (w_series w) = None"
    using one new c o f r p
    by (cases "w_roots w"; cases "w_profiles w";
        cases "find (\<lambda>x. ss_tvdbId x = Some (ld_extId found)) (w_series w)")
      (auto simp: sim_addToSonarr existsResult_def)
  have "w1 = w\<lparr>w_series := w_series w @
               [\<lparr>ss_tvdbId = Some (ld_extId found), ss_title = ld_title found,
                 ss_percentOfEpisodes = Some 0\<rparr>]\<rparr>"
    using one c o f r p n
    by (cases "w_roots w"; cases "w_profiles w") (auto simp: sim_addToSonarr)
  with c o f r p n show ?thesis by blast
qed

lemma sim_addToSonarr_kept:
  assumes one: "addToSonarr simApi w server tmdbId title = (r1, w1)"
    and no: "\<not> (ar_success r1 \<and> \<not> ar_alreadyExists r1)"
  shows "w1 = w \<and> (ar_success r1 \<longrightarrow> r1 = existsResult)"
proof -
  have "snd (addToSonarr simApi w server tmdbId title) = w \<or>
        (ar_success (fst (addToSonarr simApi w server tmdbId title)) \<and>
         \<not> ar_alreadyExists (fst (addToSonarr simApi w server tmdbId title)))"
    unfolding sim_addToSonarr by (simp split: option.splits list.splits)
  moreover have "ar_alreadyExists (fst (addToSonarr simApi w server tmdbId title)) \<longrightarrow>
        fst (addToSonarr simApi w server tmdbId title) = existsResult"
    unfolding sim_addToSonarr
    by (simp add: arrFailure_def split: option.splits list.splits)
  ultimately show ?thesis using one no by auto
qed

lemma sim_sonarr_twice:
  assumes one: "addToSonarr simApi w server tmdbId title = (r1, w1)"
    and two: "addToSonarr simApi w1 server tmdbId title = (r2, w2)"
  shows "w2 = w1 \<and> (ar_success r1 \<longrightarrow> r2 = existsResult) \<and>
         (distinct (map ss_tvdbId (w_series w)) \<longrightarrow> distinct (map ss_tvdbId (w_series w2)))"
proof (cases "ar_success r1 \<and> \<not> ar_alreadyExists r1")
  case False
  from sim_addToSonarr_kept [OF one False] have k: "w1 = w" "ar_success r1 \<longrightarrow> r1 = existsResult"
    by simp_all
  with one two have "r2 = r1" "w2 = w" by simp_all
  with k show ?thesis by simp
next
  case True
  with sim_addToSonarr_added [OF one] obtain found others where
    c: "sonarrConfigured server" "w_online w"
      "filter (\<lambda>d. ld_title d = title) (w_catalog w) = found # others"
      "w_roots w \<noteq> []" "w_profiles w \<noteq> []"
      "find (\<lambda>x. ss_tvdbId x = Some (ld_extId found)) (w_series w) = None"
    and w1: "w1 = w\<lparr>w_series := w_series w @
               [\<lparr>ss_tvdbId = Some (ld_extId found), ss_title = ld_title found,
                 ss_percentOfEpisodes = Some 0\<rparr>]\<rparr>"
    by blast
  have "addToSonarr simApi w1 server tmdbId title = (existsResult, w1)"
    using c unfolding sim_addToSonarr w1
    by (cases "w_roots w"; cases "w_profiles w") (simp_all add: find_snoc)
  with two have second: "r2 = existsResult" "w2 = w1" by simp_all
  from c(6) have "Some (ld_extId found) \<notin> set (map ss_tvdbId (w_series w))"
    by (auto simp: find_None_iff)
  with second w1 show ?thesis by simp
qed

text \<open>
  Claim C8. When the manager rejects the add with status 400 and the validator
  code for an existing item, either executor returns success with the
  already-exists flag. Against the reference manager, which refuses what it
  already lists, a second call with the same command leaves the manager as the
  first call left it, returns success with the flag whenever the first call
  succeeded, and keeps the listed identifiers free of duplicates.
\<close>

theorem executor_idempotent:
  "(radarrConfigured server \<and>
    radarr_lookup api w (ps_radarr_url server) (ps_radarr_api_key server) tmdbId =
      Resolved (Some found) \<and>
    radarr_rootfolder api w (ps_radarr_url server) (ps_radarr_api_key server) =
      Resolved (Some (rootFolderPath # roots)) \<and>
    radarr_qualityprofile api w (ps_radarr_url server) (ps_radarr_api_key server) =
      Resolved (Some (qualityProfileId # profiles)) \<and>
    radarr_add api w (ps_radarr_url server) (ps_radarr_api_key server)
      \<lparr>ab_title = ld_title found, ab_extId = ld_extId found, ab_year = ld_year found,
       ab_qualityProfileId = qualityProfileId, ab_rootFolderPath = rootFolderPath\<rparr> =
      (Rejected e, w') \<and>
    rejectsAsExisting ''MovieExistsValidator'' e \<longrightarrow>
      addToRadarr api w server tmdbId title = (existsResult, w')) \<and>
   (sonarrConfigured server \<and>
    sonarr_lookup api w (ps_sonarr_url server) (ps_sonarr_api_key server) title =
      Resolved (Some (found # others)) \<and>
    sonarr_rootfolder api w (ps_sonarr_url server) (ps_sonarr_api_key server) =
      Resolved (Some (rootFolderPath # roots)) \<and>
    sonarr_qualityprofile api w (ps_sonarr_url server) (ps_sonarr_api_key server) =
      Resolved (Some (qualityProfileId # profiles)) \<and>
    sonarr_add api w (ps_sonarr_url server) (ps_sonarr_api_key server)
      \<lparr>ab_title = ld_title found, ab_extId = ld_extId found, ab_year = ld_year found,
       ab_qualityProfileId = qualityProfileId, ab_rootFolderPath = rootFolderPath\<rparr> =
      (Rejected e, w') \<and>
    rejectsAsExisting ''SeriesExistsValidator'' e \<longrightarrow>
      addToSonarr api w server tmdbId title = (existsResult, w')) \<and>
   (addToRadarr simApi sw server tmdbId title = (r1, sw1) \<and>
    addToRadarr simApi sw1 server tmdbId title = (r2, sw2) \<longrightarrow>
      sw2 = sw1 \<and> (ar_success r1 \<longrightarrow> r2 = existsResult) \<and>
      (distinct (map rm_tmdbId (w_movies sw)) \<longrightarrow> distinct (map rm_tmdbId (w_movies sw2)))) \<and>
   (addToSonarr simApi sw server tmdbId title = (r1, sw1) \<and>
    addToSonarr simApi sw1 server tmdbId title = (r2, sw2) \<longrightarrow>
      sw2 = sw1 \<and> (ar_success r1 \<longrightarrow> r2 = existsResult) \<and>
      (distinct (map ss_tvdbId (w_series sw)) \<longrightarrow> distinct (map ss_tvdbId (w_series sw2))))"
  using addToRadarr_exists [of server api w tmdbId found rootFolderPath roots qualityProfileId
      profiles e w' title]
    addToSonarr_exists [of server api w title found others rootFolderPath roots qualityProfileId
      profiles e w' tmdbId]
    sim_radarr_twice [of sw server tmdbId title r1 sw1 r2 sw2]
    sim_sonarr_twice [of sw server tmdbId title r1 sw1 r2 sw2]
  by blast

theorem executor_idempotent_witness:
  "addToRadarr simApi homeWorld serverOne 603 ''The Matrix'' = (existsResult, homeWorld) \<and>
   addToSonarr simApi homeWorld serverOne 1399 ''Game of Thrones'' = (existsResult, homeWorld) \<and>
   ar_success (fst (addToRadarr simApi homeWorld serverOne 949 ''Heat'')) \<and>
   addToRadarr simApi (snd (addToRadarr simApi homeWorld serverOne 949 ''Heat'')) serverOne 949
     ''Heat'' = (existsResult, snd (addToRadarr simApi homeWorld serverOne 949 ''Heat'')) \<and>
   ar_success (fst (addToSonarr simApi homeWorld serverOne 949 ''Heat'')) \<and>
   addToSonarr simApi (snd (addToSonarr simApi homeWorld serverOne 949 ''Heat'')) serverOne 949
     ''Heat'' = (existsResult, snd (addToSonarr simApi homeWorld serverOne 949 ''Heat''))"
proof -
  have cfg: "radarrConfigured serverOne" "sonarrConfigured serverOne" by code_simp+
  have r1: "radarr_lookup simApi homeWorld (ps_radarr_url serverOne) (ps_radarr_api_key serverOne) 603 =
      Resolved (Some \<lparr>ld_title = ''The Matrix'', ld_extId = 603, ld_year = 1999\<rparr>)"
    by code_simp
  have r2: "radarr_rootfolder simApi homeWorld (ps_radarr_url serverOne) (ps_radarr_api_key serverOne) =
      Resolved (Some (''/movies'' # []))"
    by code_simp
  have r3: "radarr_qualityprofile simApi homeWorld (ps_radarr_url serverOne)
      (ps_radarr_api_key serverOne) = Resolved (Some (1 # []))"
    by code_simp
  have r4: "radarr_add simApi homeWorld (ps_radarr_url serverOne) (ps_radarr_api_key serverOne)
      \<lparr>ab_title = ld_title \<lparr>ld_title = ''The Matrix'', ld_extId = 603, ld_year = 1999\<rparr>,
       ab_extId = ld_extId \<lparr>ld_title = ''The Matrix'', ld_extId = 603, ld_year = 1999\<rparr>,
       ab_year = ld_year \<lparr>ld_title = ''The Matrix'', ld_extId = 603, ld_year = 1999\<rparr>,
       ab_qualityProfileId = 1, ab_rootFolderPath = ''/movies''\<rparr> =
      (Rejected (alreadyListed ''MovieExistsValidator''), homeWorld)"
    by code_simp
  have r5: "rejectsAsExisting ''MovieExistsValidator'' (alreadyListed ''MovieExistsValidator'')"
    by code_simp
  from executor_idempotent [where api = simApi and w = homeWorld and server = serverOne
      and tmdbId = 603 and title = "''The Matrix''"
      and found = "\<lparr>ld_title = ''The Matrix'', ld_extId = 603, ld_year = 1999\<rparr>"
      and rootFolderPath = "''/movies''" and roots = "[]" and qualityProfileId = 1
      and profiles = "[]" and e = "alreadyListed ''MovieExistsValidator''" and w' = homeWorld]
    cfg r1 r2 r3 r4 r5
  have a: "addToRadarr simApi homeWorld serverOne 603 ''The Matrix'' = (existsResult, homeWorld)"
    by blast
  have s1: "sonarr_lookup simApi homeWorld (ps_sonarr_url serverOne) (ps_sonarr_api_key serverOne)
      ''Game of Thrones'' =
      Resolved (Some (\<lparr>ld_title = ''Game of Thrones'', ld_extId = 121361, ld_year = 2011\<rparr> # []))"
    by code_simp
  have s2: "sonarr_rootfolder simApi homeWorld (ps_sonarr_url serverOne) (ps_sonarr_api_key serverOne) =
      Resolved (Some (''/movies'' # []))"
    by code_simp
  have s3: "sonarr_qualityprofile simApi homeWorld (ps_sonarr_url serverOne)
      (ps_sonarr_api_key serverOne) = Resolved (Some (1 # []))"
    by code_simp
  have s4: "sonarr_add simApi homeWorld (ps_sonarr_url serverOne) (ps_sonarr_api_key serverOne)
      \<lparr>ab_title = ld_title \<lparr>ld_title = ''Game of Thrones'', ld_extId = 121361, ld_year = 2011\<rparr>,
       ab_extId = ld_extId \<lparr>ld_title = ''Game of Thrones'', ld_extId = 121361, ld_year = 2011\<rparr>,
       ab_year = ld_year \<lparr>ld_title = ''Game of Thrones'', ld_extId = 121361, ld_year = 2011\<rparr>,
       ab_qualityProfileId = 1, ab_rootFolderPath = ''/movies''\<rparr> =
      (Rejected (alreadyListed ''SeriesExistsValidator''), homeWorld)"
    by code_simp
  have s5: "rejectsAsExisting ''SeriesExistsValidator'' (alreadyListed ''SeriesExistsValidator'')"
    by code_simp
  from executor_idempotent [where api = simApi and w = homeWorld and server = serverOne
      and tmdbId = 1399 and title = "''Game of Thrones''"
      and found = "\<lparr>ld_title = ''Game of Thrones'', ld_extId = 121361, ld_year = 2011\<rparr>"
      and others = "[]"
      and rootFolderPath = "''/movies''" and roots = "[]" and qualityProfileId = 1
      and profiles = "[]" and e = "alreadyListed ''SeriesExistsValidator''" and w' = homeWorld]
    cfg s1 s2 s3 s4 s5
  have b: "addToSonarr simApi homeWorld serverOne 1399 ''Game of Thrones'' = (existsResult, homeWorld)"
    by blast
  have ok1: "ar_success (fst (addToRadarr simApi homeWorld serverOne 949 ''Heat''))"
    by code_simp
  have ok2: "ar_success (fst (addToSonarr simApi homeWorld serverOne 949 ''Heat''))"
    by code_simp
  from executor_idempotent [where sw = homeWorld and server = serverOne and tmdbId = 949
      and title = "''Heat''" and ?r1.0 = "fst (addToRadarr simApi homeWorld serverOne 949 ''Heat'')"
      and ?sw1.0 = "snd (addToRadarr simApi homeWorld serverOne 949 ''Heat'')"
      and ?r2.0 = "fst (addToRadarr simApi (snd (addToRadarr simApi homeWorld serverOne 949 ''Heat''))
                        serverOne 949 ''Heat'')"
      and ?sw2.0 = "snd (addToRadarr simApi (snd (addToRadarr simApi homeWorld serverOne 949 ''Heat''))
                        serverOne 949 ''Heat'')",
      THEN conjunct2, THEN conjunct2, THEN conjunct1] ok1
  have c: "addToRadarr simApi (snd (addToRadarr simApi homeWorld serverOne 949 ''Heat'')) serverOne
      949 ''Heat'' = (existsResult, snd (addToRadarr simApi homeWorld serverOne 949 ''Heat''))"
    by (simp add: prod_eq_iff)
  from executor_idempotent [where sw = homeWorld and server = serverOne and tmdbId = 949
      and title = "''Heat''" and ?r1.0 = "fst (addToSonarr simApi homeWorld serverOne 949 ''Heat'')"
      and ?sw1.0 = "snd (addToSonarr simApi homeWorld serverOne 949 ''Heat'')"
      and ?r2.0 = "fst (addToSonarr simApi (snd (addToSonarr simApi homeWorld serverOne 949 ''Heat''))
                        serverOne 949 ''Heat'')"
      and ?sw2.0 = "snd (addToSonarr simApi (snd (addToSonarr simApi homeWorld serverOne 949 ''Heat''))
                        serverOne 949 ''Heat'')",
      THEN conjunct2, THEN conjunct2, THEN conjunct2] ok2
  have d: "addToSonarr simApi (snd (addToSonarr simApi homeWorld serverOne 949 ''Heat'')) serverOne
      949 ''Heat'' = (existsResult, snd (addToSonarr simApi homeWorld serverOne 949 ''Heat''))"
    by (simp add: prod_eq_iff)
  from a b c d ok1 ok2 show ?thesis by blast
qed

end
